theory Spec2Isabelle
  imports Main
begin

section \<open>go-rproxy: the reverse proxy of server/server.go (package rproxy)\<close>

text \<open>
  The theory embeds the proxy of package \<open>rproxy\<close>: the configuration built by
  \<open>NewRProxy\<close>, the start-up code of \<open>Start\<close>, \<open>startTCP\<close> and \<open>startTLS\<close>, the accept
  loop, the per-connection functions \<open>serve\<close>, \<open>serveTCP\<close> and \<open>serveTLS\<close>, and the two
  copy loops each of them runs.

  Go strings are byte sequences, here \<open>string\<close> (a list of 8-bit characters). Go errors
  are represented by their messages. A function that returns \<open>(value, err)\<close> returns a
  sum: \<open>Inl\<close> the error, \<open>Inr\<close> the value. A \<open>panic\<close> that nothing recovers and a
  \<open>log.Fatalf\<close> end the whole process, in whichever goroutine they happen; they are
  the outcomes \<open>Panic\<close> and \<open>Fatal\<close>.

  The program calls the Go library for files, certificates, listening, dialling and
  copying. What those calls answer is the environment (\<open>world\<close>), a parameter of every
  function here; what the library does with the program's arguments (\<open>strings.ToLower\<close>,
  \<open>io.Copy\<close>, the client-certificate policy and the lazy handshake of \<open>crypto/tls\<close>) is
  written out after the library's documented behaviour.
\<close>

subsection \<open>Strings\<close>

type_synonym error = string

text \<open>
  \<open>strings.ToLower\<close> of the Go library: a string whose bytes are all below
  \<open>utf8.RuneSelf\<close> (0x80) has its bytes \<open>'A'..'Z'\<close> moved by \<open>'a' - 'A'\<close>; any other
  string is mapped rune by rune through the Unicode tables, which are not part of this
  program and are taken as the parameter \<open>unicodeLower\<close>.
\<close>

definition lower_byte :: "char \<Rightarrow> char" where
  "lower_byte c =
     (if (65::nat) \<le> of_char c \<and> of_char c \<le> (90::nat)
      then char_of (of_char c + (32::nat)) else c)"

definition isASCII :: "string \<Rightarrow> bool" where
  "isASCII s = list_all (\<lambda>c. of_char c < (128::nat)) s"

definition ToLower :: "(string \<Rightarrow> string) \<Rightarrow> string \<Rightarrow> string" where
  "ToLower unicodeLower s = (if isASCII s then map lower_byte s else unicodeLower s)"

subsection \<open>The configuration\<close>

record RProxy =
  listenProto :: string
  listenAddr :: string
  backendProto :: string
  backendAddr :: string
  rootCert :: string
  serverCert :: string
  serverKey :: string
  clientCert :: string
  clientKey :: string

text \<open>
  \<open>NewRProxy\<close> takes nine Go strings: two transport kinds, two addresses and five
  file paths (the synonyms only name the roles of the arguments).
\<close>

type_synonym kind = string
type_synonym address = string
type_synonym path = string

definition NewRProxy ::
  "(string \<Rightarrow> string) \<Rightarrow> kind \<Rightarrow> address \<Rightarrow> kind \<Rightarrow> address \<Rightarrow>
   path \<Rightarrow> path \<Rightarrow> path \<Rightarrow> path \<Rightarrow> path \<Rightarrow> RProxy" where
  "NewRProxy unicodeLower lp la bp ba rc sc sk cc ck =
     \<lparr> listenProto = ToLower unicodeLower lp,
       listenAddr = ToLower unicodeLower la,
       backendProto = ToLower unicodeLower bp,
       backendAddr = ToLower unicodeLower ba,
       rootCert = rc,
       serverCert = sc,
       serverKey = sk,
       clientCert = cc,
       clientKey = ck \<rparr>"

subsection \<open>Transport configuration, certificates and the environment\<close>

text \<open>
  Certificates, keys and PEM data are opaque byte strings. A certificate pool is the list
  of certificates added to it; \<open>tls.Config\<close> keeps the fields this program sets, a field
  left out of a composite literal having Go's zero value.
\<close>

type_synonym cert = string
type_synonym CertPool = "cert list"
type_synonym Certificate = string

datatype ClientAuthType =
    NoClientCert
  | RequestClientCert
  | RequireAnyClientCert
  | VerifyClientCertIfGiven
  | RequireAndVerifyClientCert

record tls_Config =
  RootCAs :: "CertPool option"
  ClientCAs :: "CertPool option"
  ClientAuth :: ClientAuthType
  ServerName :: string
  Certificates :: "Certificate list"

definition zero_Config :: tls_Config where
  "zero_Config =
     \<lparr> RootCAs = None, ClientCAs = None, ClientAuth = NoClientCert,
       ServerName = [], Certificates = [] \<rparr>"

text \<open>
  The environment of the process: the file system, the parsers and verifier of
  \<open>crypto/x509\<close> and \<open>crypto/tls\<close>, and the network. \<open>net_dial\<close> answers a dial for the
  session of the accepted connection with the given number, to an address, with an
  optional timeout in nanoseconds and, for \<open>tls.Dial\<close>, the client configuration; its
  value is the error, \<open>None\<close> when the connection (and the client handshake) succeeded.
\<close>

record world =
  files :: "string \<Rightarrow> error + string"
  pem_certs :: "string \<Rightarrow> cert list"
  X509KeyPair :: "string \<Rightarrow> string \<Rightarrow> error + Certificate"
  verifies :: "CertPool option \<Rightarrow> cert \<Rightarrow> bool"
  ResolveTCPAddr :: "string \<Rightarrow> error + string"
  net_listen :: "string \<Rightarrow> error option"
  net_dial :: "nat \<Rightarrow> string \<Rightarrow> int option \<Rightarrow> tls_Config option \<Rightarrow> error option"

datatype event =
    ReadFile string
  | Resolve string
  | Listen string "tls_Config option"
  | Accepted nat
  | Log string
  | Dial nat string "int option" "tls_Config option"

datatype outcome =
    Running
  | Returned "error option"
  | Panic string
  | Fatal string

definition NewCertPool :: CertPool where
  "NewCertPool = []"

text \<open>
  \<open>AppendCertsFromPEM\<close> appends the certificates found in the PEM data and reports
  whether any was parsed.
\<close>

definition AppendCertsFromPEM :: "world \<Rightarrow> CertPool \<Rightarrow> string \<Rightarrow> CertPool \<times> bool" where
  "AppendCertsFromPEM w pool pem = (pool @ pem_certs w pem, pem_certs w pem \<noteq> [])"

text \<open>
  \<open>tls.LoadX509KeyPair\<close> reads the certificate file, then the key file, then parses the
  pair; the first failure is returned.
\<close>

definition LoadX509KeyPair ::
  "world \<Rightarrow> string \<Rightarrow> string \<Rightarrow> event list \<times> (error + Certificate)" where
  "LoadX509KeyPair w certFile keyFile =
     (case files w certFile of
        Inl e \<Rightarrow> ([ReadFile certFile], Inl e)
      | Inr certPEM \<Rightarrow>
          (case files w keyFile of
             Inl e \<Rightarrow> ([ReadFile certFile, ReadFile keyFile], Inl e)
           | Inr keyPEM \<Rightarrow>
               ([ReadFile certFile, ReadFile keyFile], X509KeyPair w certPEM keyPEM)))"

definition Second :: int where
  "Second = 1000000000"

subsection \<open>Connections and the two copy loops\<close>

text \<open>
  An accepted connection: its number (the position of its \<open>Accept\<close> among the
  successful ones), what its peer does in an encrypted handshake, and the server
  configuration it was wrapped with when the listener is a \<open>tls\<close> listener. The
  listener of \<open>crypto/tls\<close> does not perform the handshake in \<open>Accept\<close>: the first
  \<open>Read\<close> or \<open>Write\<close> on the connection does, and fails when the handshake fails.
  The program never calls \<open>Handshake\<close> itself.

  \<open>client_auth_ok\<close> is the policy of the five \<open>ClientAuthType\<close> values on the
  certificate the peer presents, \<open>verifies\<close> being the chain verification against the
  pool. A handshake succeeds when the policy is met and the peer completes its part.
\<close>

record peer =
  peer_cert :: "cert option"
  peer_completes :: bool

record conn =
  conn_id :: nat
  conn_peer :: peer
  conn_tls :: "tls_Config option"

definition client_auth_ok :: "world \<Rightarrow> tls_Config \<Rightarrow> cert option \<Rightarrow> bool" where
  "client_auth_ok w cfg presented =
     (case ClientAuth cfg of
        NoClientCert \<Rightarrow> True
      | RequestClientCert \<Rightarrow> True
      | RequireAnyClientCert \<Rightarrow> presented \<noteq> None
      | VerifyClientCertIfGiven \<Rightarrow>
          (case presented of None \<Rightarrow> True | Some c \<Rightarrow> verifies w (ClientCAs cfg) c)
      | RequireAndVerifyClientCert \<Rightarrow>
          (case presented of None \<Rightarrow> False | Some c \<Rightarrow> verifies w (ClientCAs cfg) c))"

definition handshake_ok :: "world \<Rightarrow> conn \<Rightarrow> bool" where
  "handshake_ok w c =
     (case conn_tls c of
        None \<Rightarrow> True
      | Some cfg \<Rightarrow>
          client_auth_ok w cfg (peer_cert (conn_peer c)) \<and> peer_completes (conn_peer c))"

text \<open>
  The state of one session. Each copy loop is \<open>io.Copy\<close> followed by
  \<open>backendConn.Close()\<close> and \<open>listenConn.Close()\<close>; its program counter says where it
  stands: not started, about to \<open>Read\<close> its source, about to \<open>Write\<close> a chunk to its
  destination (with what the \<open>Read\<close> returned beside the chunk), about to close the
  backend connection, about to close the listen connection, or finished.
\<close>

datatype read_err = NoErr | EOF | ReadFailed

datatype pc =
    Idle
  | Rd
  | Wr string read_err
  | ClosingBackend
  | ClosingListen
  | Fin

datatype dir = F2B | B2F

record session =
  listenConn_open :: bool
  backendConn_open :: bool
  pc_f2b :: pc
  pc_b2f :: pc
  to_backend :: string
  to_listen :: string

text \<open>
  One step of one loop. The scheduler names the loop; the environment says what a
  \<open>Read\<close> on an open connection returns (bytes and an error) and what a \<open>Write\<close>
  returns (the number of bytes written and whether it failed). A \<open>Read\<close> or \<open>Write\<close>
  on a connection this process has closed fails, and so does one on the listen
  connection when its handshake fails.
\<close>

datatype copy_act = Act dir "string \<times> read_err" "nat \<times> bool"

definition pc_of :: "dir \<Rightarrow> session \<Rightarrow> pc" where
  "pc_of d s = (case d of F2B \<Rightarrow> pc_f2b s | B2F \<Rightarrow> pc_b2f s)"

definition set_pc :: "dir \<Rightarrow> pc \<Rightarrow> session \<Rightarrow> session" where
  "set_pc d p s = (case d of F2B \<Rightarrow> s\<lparr>pc_f2b := p\<rparr> | B2F \<Rightarrow> s\<lparr>pc_b2f := p\<rparr>)"

definition conn_Read :: "bool \<Rightarrow> dir \<Rightarrow> session \<Rightarrow> string \<times> read_err \<Rightarrow> string \<times> read_err" where
  "conn_Read hs d s r =
     (case d of
        F2B \<Rightarrow> if listenConn_open s \<and> hs then r else ([], ReadFailed)
      | B2F \<Rightarrow> if backendConn_open s then r else ([], ReadFailed))"

definition conn_Write :: "bool \<Rightarrow> dir \<Rightarrow> session \<Rightarrow> nat \<times> bool \<Rightarrow> nat \<times> bool" where
  "conn_Write hs d s r =
     (case d of
        F2B \<Rightarrow> if backendConn_open s then r else (0, True)
      | B2F \<Rightarrow> if listenConn_open s \<and> hs then r else (0, True))"

definition deliver :: "dir \<Rightarrow> string \<Rightarrow> session \<Rightarrow> session" where
  "deliver d bytes s =
     (case d of
        F2B \<Rightarrow> s\<lparr>to_backend := to_backend s @ bytes\<rparr>
      | B2F \<Rightarrow> s\<lparr>to_listen := to_listen s @ bytes\<rparr>)"

text \<open>
  The loop of \<open>io.Copy(dst, src)\<close> reads a chunk, writes it when it is not empty,
  leaves when the write fails or is short, and leaves when the read returned an error
  (end of stream included):
  \<^verbatim>\<open>for { nr, er := src.Read(buf)
        if nr > 0 { nw, ew := dst.Write(buf[0:nr])
                    if ew != nil || nr != nw { break } }
        if er != nil { break } }\<close>
  After the loop come \<open>backendConn.Close()\<close> and \<open>listenConn.Close()\<close>, in this
  order, in both goroutines.
\<close>

fun copy_step :: "bool \<Rightarrow> copy_act \<Rightarrow> session \<Rightarrow> session" where
  "copy_step hs (Act d rd wr) s =
     (case pc_of d s of
        Idle \<Rightarrow> s
      | Rd \<Rightarrow>
          (case conn_Read hs d s rd of
             (bytes, er) \<Rightarrow>
               if bytes \<noteq> [] then set_pc d (Wr bytes er) s
               else if er \<noteq> NoErr then set_pc d ClosingBackend s
               else s)
      | Wr bytes er \<Rightarrow>
          (case conn_Write hs d s wr of
             (nw, ew) \<Rightarrow>
               let s' = deliver d (take nw bytes) s in
               if ew \<or> nw \<noteq> length bytes then set_pc d ClosingBackend s'
               else if er \<noteq> NoErr then set_pc d ClosingBackend s'
               else set_pc d Rd s')
      | ClosingBackend \<Rightarrow> set_pc d ClosingListen (s\<lparr>backendConn_open := False\<rparr>)
      | ClosingListen \<Rightarrow> set_pc d Fin (s\<lparr>listenConn_open := False\<rparr>)
      | Fin \<Rightarrow> s)"

fun relay :: "bool \<Rightarrow> copy_act list \<Rightarrow> session \<Rightarrow> session" where
  "relay hs [] s = s"
| "relay hs (a # as) s = relay hs as (copy_step hs a s)"

subsection \<open>Serving one accepted connection\<close>

text \<open>
  \<open>accepted_session\<close> is a session whose connection has been accepted and nothing
  else done; \<open>relay_start\<close> is the session once the backend is dialled and both copy
  loops stand before their first \<open>Read\<close>.

  \<open>pipe\<close> is the common tail of \<open>serveTCP\<close> and \<open>serveTLS\<close> (the \<open>go func\<close> with the
  front-to-back loop, and the back-to-front loop the function runs itself), the two
  loops being run for the steps \<open>sched\<close> chooses. The function has returned \<open>nil\<close>
  when its own loop is finished, and is still running otherwise.
\<close>

definition accepted_session :: session where
  "accepted_session =
     \<lparr> listenConn_open = True, backendConn_open = False, pc_f2b = Idle, pc_b2f = Idle,
       to_backend = [], to_listen = [] \<rparr>"

definition relay_start :: session where
  "relay_start =
     \<lparr> listenConn_open = True, backendConn_open = True, pc_f2b = Rd, pc_b2f = Rd,
       to_backend = [], to_listen = [] \<rparr>"

definition pipe ::
  "world \<Rightarrow> conn \<Rightarrow> event list \<Rightarrow> copy_act list \<Rightarrow> event list \<times> session \<times> outcome" where
  "pipe w c evs sched =
     (let s = relay (handshake_ok w c) sched relay_start
      in (evs, s, if pc_b2f s = Fin then Returned None else Running))"

definition serveTCP ::
  "RProxy \<Rightarrow> world \<Rightarrow> conn \<Rightarrow> copy_act list \<Rightarrow> event list \<times> session \<times> outcome" where
  "serveTCP rp w listenConn sched =
     (let timeout = Some (30 * Second);
          d = Dial (conn_id listenConn) (backendAddr rp) timeout None
      in case net_dial w (conn_id listenConn) (backendAddr rp) timeout None of
           Some err \<Rightarrow>
             ([d], accepted_session\<lparr>listenConn_open := False\<rparr>, Returned (Some err))
         | None \<Rightarrow> pipe w listenConn [d] sched)"

definition serveTLS ::
  "RProxy \<Rightarrow> world \<Rightarrow> conn \<Rightarrow> copy_act list \<Rightarrow> event list \<times> session \<times> outcome" where
  "serveTLS rp w listenConn sched =
     (case files w (rootCert rp) of
        Inl e \<Rightarrow>
          ([ReadFile (rootCert rp)], accepted_session,
           Fatal ''failed to load root certificate'')
      | Inr rootPEM \<Rightarrow>
          (case AppendCertsFromPEM w NewCertPool rootPEM of
             (roots, ok) \<Rightarrow>
               if \<not> ok then
                 ([ReadFile (rootCert rp)], accepted_session,
                  Panic ''failed to parse root certificate'')
               else
                 (case LoadX509KeyPair w (clientCert rp) (clientKey rp) of
                    (evs, Inl e) \<Rightarrow>
                      (ReadFile (rootCert rp) # evs, accepted_session,
                       Panic ''failed to load client tls certificate'')
                  | (evs, Inr cert) \<Rightarrow>
                      let config = zero_Config
                            \<lparr> RootCAs := Some roots,
                              ServerName := ''testapp-server'',
                              Certificates := [cert] \<rparr>;
                          d = Dial (conn_id listenConn) (backendAddr rp) None (Some config)
                      in (case net_dial w (conn_id listenConn) (backendAddr rp) None
                                 (Some config) of
                            Some err \<Rightarrow>
                              (ReadFile (rootCert rp) # evs @ [d],
                               accepted_session\<lparr>listenConn_open := False\<rparr>,
                               Returned (Some err))
                          | None \<Rightarrow>
                              pipe w listenConn (ReadFile (rootCert rp) # evs @ [d]) sched))))"

text \<open>
  \<open>serve\<close> drops what \<open>serveTCP\<close> and \<open>serveTLS\<close> return and returns \<open>nil\<close>; a panic
  or a \<open>log.Fatalf\<close> inside them is not a return and goes through.
\<close>

definition drop_error :: "outcome \<Rightarrow> outcome" where
  "drop_error out = (case out of Returned e \<Rightarrow> Returned None | other \<Rightarrow> other)"

definition serve ::
  "RProxy \<Rightarrow> world \<Rightarrow> conn \<Rightarrow> copy_act list \<Rightarrow> event list \<times> session \<times> outcome" where
  "serve rp w c sched =
     (if backendProto rp = ''tcp'' then
        (case serveTCP rp w c sched of (evs, s, out) \<Rightarrow> (evs, s, drop_error out))
      else if backendProto rp = ''tls'' then
        (case serveTLS rp w c sched of (evs, s, out) \<Rightarrow> (evs, s, drop_error out))
      else ([], accepted_session, Panic ''backend protocol not supported''))"

subsection \<open>The process: start-up and the accept loop\<close>

text \<open>
  The process: whether its main goroutine is in the accept loop (\<open>Running\<close>) or the
  process has been aborted by a panic or by \<open>log.Fatalf\<close>; the configuration of the
  listener; the connections accepted so far; the sessions whose goroutine has run, with
  the state it reached; and what the process did, in order.
\<close>

record process =
  status :: outcome
  ln_config :: "tls_Config option"
  accepted :: "conn list"
  sessions :: "(nat \<times> session \<times> outcome) list"
  trace :: "event list"

definition aborted :: "event list \<Rightarrow> outcome \<Rightarrow> process" where
  "aborted evs out =
     \<lparr> status = out, ln_config = None, accepted = [], sessions = [], trace = evs \<rparr>"

definition listening :: "event list \<Rightarrow> tls_Config option \<Rightarrow> process" where
  "listening evs cfg =
     \<lparr> status = Running, ln_config = cfg, accepted = [], sessions = [], trace = evs \<rparr>"

definition startTCP :: "RProxy \<Rightarrow> world \<Rightarrow> process" where
  "startTCP rp w =
     (case ResolveTCPAddr w (listenAddr rp) of
        Inl err \<Rightarrow> aborted [Resolve (listenAddr rp)] (Panic err)
      | Inr lAddr \<Rightarrow>
          (case net_listen w lAddr of
             Some err \<Rightarrow> aborted [Resolve (listenAddr rp), Listen lAddr None] (Panic err)
           | None \<Rightarrow> listening [Resolve (listenAddr rp), Listen lAddr None] None))"

text \<open>
  \<open>tls.Listen\<close> refuses a configuration without a certificate and otherwise listens on
  the address.
\<close>

definition tls_Listen :: "world \<Rightarrow> string \<Rightarrow> tls_Config \<Rightarrow> error option" where
  "tls_Listen w laddr config =
     (if Certificates config = []
      then Some ''tls: neither Certificates, GetCertificate, nor GetConfigForClient set in Config''
      else net_listen w laddr)"

definition startTLS :: "RProxy \<Rightarrow> world \<Rightarrow> process" where
  "startTLS rp w =
     (case files w (rootCert rp) of
        Inl e \<Rightarrow> aborted [ReadFile (rootCert rp)] (Panic ''failed to load root certificate'')
      | Inr rootPEM \<Rightarrow>
          (case AppendCertsFromPEM w NewCertPool rootPEM of
             (roots, ok) \<Rightarrow>
               if \<not> ok then
                 aborted [ReadFile (rootCert rp)] (Panic ''failed to parse root certificate'')
               else
                 (case LoadX509KeyPair w (serverCert rp) (serverKey rp) of
                    (evs, Inl err) \<Rightarrow>
                      aborted (ReadFile (rootCert rp) # evs)
                        (Fatal (''failed to load server tls certificate: '' @ err))
                  | (evs, Inr cert) \<Rightarrow>
                      let config = zero_Config
                            \<lparr> ClientCAs := Some roots,
                              ClientAuth := RequireAndVerifyClientCert,
                              Certificates := [cert] \<rparr>;
                          evs' = ReadFile (rootCert rp) # evs
                                   @ [Listen (listenAddr rp) (Some config)]
                      in (case tls_Listen w (listenAddr rp) config of
                            Some err \<Rightarrow> aborted evs' (Panic err)
                          | None \<Rightarrow> listening evs' (Some config)))))"

definition Start :: "RProxy \<Rightarrow> world \<Rightarrow> process" where
  "Start rp w =
     (if listenProto rp = ''tcp'' then startTCP rp w
      else if listenProto rp = ''tls'' then startTLS rp w
      else aborted [] (Panic ''listen protocol not supported''))"

text \<open>
  After start-up the process moves by two kinds of steps, in any order the scheduler and
  the network choose. \<open>DoAccept\<close>: the \<open>Accept\<close> of the loop returns, with an error,
  which is logged, or with a connection, for which \<open>go rp.serve(conn)\<close> starts a
  goroutine. \<open>DoServe i sched\<close>: the goroutine of the \<open>i\<close>-th accepted connection runs
  \<open>serve\<close>, its copy loops taking the steps of \<open>sched\<close>; a panic or \<open>log.Fatalf\<close> in it
  aborts the process. Nothing moves in an aborted process. The loop has no exit, so the
  deferred \<open>ln.Close()\<close> never runs.
\<close>

datatype action = DoAccept "error + peer" | DoServe nat "copy_act list"

definition is_abort :: "outcome \<Rightarrow> bool" where
  "is_abort out = (case out of Panic m \<Rightarrow> True | Fatal m \<Rightarrow> True | other \<Rightarrow> False)"

definition accept_step :: "error + peer \<Rightarrow> process \<Rightarrow> process" where
  "accept_step r p =
     (case r of
        Inl err \<Rightarrow> p\<lparr>trace := trace p @ [Log (''accept error ('' @ err @ '')'' @ [CHR 0x0A])]\<rparr>
      | Inr pr \<Rightarrow>
          p\<lparr>accepted := accepted p
                @ [\<lparr>conn_id = length (accepted p), conn_peer = pr, conn_tls = ln_config p\<rparr>],
            trace := trace p @ [Accepted (length (accepted p))]\<rparr>)"

definition serve_step :: "RProxy \<Rightarrow> world \<Rightarrow> nat \<Rightarrow> copy_act list \<Rightarrow> process \<Rightarrow> process" where
  "serve_step rp w i sched p =
     (if i < length (accepted p) \<and> i \<notin> set (map fst (sessions p)) then
        (case serve rp w (accepted p ! i) sched of
           (evs, s, out) \<Rightarrow>
             p\<lparr>status := (if is_abort out then out else status p),
               sessions := sessions p @ [(i, s, out)],
               trace := trace p @ evs\<rparr>)
      else p)"

fun proc_step :: "RProxy \<Rightarrow> world \<Rightarrow> action \<Rightarrow> process \<Rightarrow> process" where
  "proc_step rp w (DoAccept r) p = (if status p = Running then accept_step r p else p)"
| "proc_step rp w (DoServe i sched) p =
     (if status p = Running then serve_step rp w i sched p else p)"

fun steps :: "RProxy \<Rightarrow> world \<Rightarrow> action list \<Rightarrow> process \<Rightarrow> process" where
  "steps rp w [] p = p"
| "steps rp w (a # as) p = steps rp w as (proc_step rp w a p)"

definition run :: "RProxy \<Rightarrow> world \<Rightarrow> action list \<Rightarrow> process" where
  "run rp w as = steps rp w as (Start rp w)"

subsection \<open>Invariants of the copy loops\<close>

text \<open>
  \<open>exit_inv\<close>: a loop that is past \<open>backendConn.Close()\<close> finds the backend connection
  closed, and a loop that has finished finds both connections closed.
  \<open>silent\<close>: no byte has been written to either side and the front-to-back loop holds
  no chunk to write.
\<close>

definition exit_inv :: "session \<Rightarrow> bool" where
  "exit_inv s =
     ((pc_f2b s = ClosingListen \<longrightarrow> \<not> backendConn_open s) \<and>
      (pc_b2f s = ClosingListen \<longrightarrow> \<not> backendConn_open s) \<and>
      (pc_f2b s = Fin \<longrightarrow> \<not> backendConn_open s \<and> \<not> listenConn_open s) \<and>
      (pc_b2f s = Fin \<longrightarrow> \<not> backendConn_open s \<and> \<not> listenConn_open s))"

definition silent :: "session \<Rightarrow> bool" where
  "silent s =
     (to_backend s = [] \<and> to_listen s = [] \<and>
      (case pc_f2b s of Wr bytes er \<Rightarrow> False | other \<Rightarrow> True))"

subsection \<open>Example configurations and environments\<close>

text \<open>
  A proxy listening on 127.0.0.1:9000 in front of a backend on 127.0.0.1:9001, with the
  two transport kinds left open, and an environment in which the five credential files
  exist, the root file holds one certificate, every key pair loads, every address binds
  and every dial succeeds. The other environments differ from it in one respect each.
\<close>

definition demo_files :: "string \<Rightarrow> error + string" where
  "demo_files path =
     (if path \<in> set [''root.pem'', ''server.pem'', ''server.key'', ''client.pem'', ''client.key'']
      then Inr (''PEM '' @ path) else Inl ''no such file'')"

definition demo_world :: world where
  "demo_world =
     \<lparr> files = demo_files,
       pem_certs = (\<lambda>pem. if pem = ''PEM root.pem'' then [''ROOT''] else []),
       X509KeyPair = (\<lambda>certPEM keyPEM. Inr (certPEM @ '' with '' @ keyPEM)),
       verifies = (\<lambda>pool c. case pool of None \<Rightarrow> False
                    | Some cs \<Rightarrow> c = ''signed by ROOT'' \<and> ''ROOT'' \<in> set cs),
       ResolveTCPAddr = Inr,
       net_listen = (\<lambda>laddr. None),
       net_dial = (\<lambda>i addr timeout config. None) \<rparr>"

definition refusing_world :: world where
  "refusing_world =
     demo_world\<lparr>net_dial := (\<lambda>i addr timeout config. Some ''connection refused'')\<rparr>"

definition busy_world :: world where
  "busy_world = demo_world\<lparr>net_listen := (\<lambda>laddr. Some ''address already in use'')\<rparr>"

definition no_files_world :: world where
  "no_files_world = demo_world\<lparr>files := (\<lambda>path. Inl ''no such file'')\<rparr>"

definition empty_root_world :: world where
  "empty_root_world = demo_world\<lparr>pem_certs := (\<lambda>pem. [])\<rparr>"

definition no_client_world :: world where
  "no_client_world =
     demo_world\<lparr>files := (\<lambda>path. if path = ''client.pem'' then Inl ''no such file''
                                 else demo_files path)\<rparr>"

definition demo_proxy :: "string \<Rightarrow> string \<Rightarrow> RProxy" where
  "demo_proxy lp bp =
     NewRProxy id lp ''127.0.0.1:9000'' bp ''127.0.0.1:9001''
       ''root.pem'' ''server.pem'' ''server.key'' ''client.pem'' ''client.key''"

definition demo_client_config :: tls_Config where
  "demo_client_config =
     \<lparr> RootCAs = Some [''ROOT''], ClientCAs = None, ClientAuth = NoClientCert,
       ServerName = ''testapp-server'',
       Certificates = [''PEM client.pem with PEM client.key''] \<rparr>"

definition demo_server_config :: tls_Config where
  "demo_server_config =
     \<lparr> RootCAs = None, ClientCAs = Some [''ROOT''], ClientAuth = RequireAndVerifyClientCert,
       ServerName = [],
       Certificates = [''PEM server.pem with PEM server.key''] \<rparr>"

definition anon :: peer where
  "anon = \<lparr>peer_cert = None, peer_completes = True\<rparr>"

definition stranger :: peer where
  "stranger = \<lparr>peer_cert = Some ''self signed'', peer_completes = True\<rparr>"

definition plain_conn :: conn where
  "plain_conn = \<lparr> conn_id = 0, conn_peer = anon, conn_tls = None \<rparr>"

definition tls_conn :: "peer \<Rightarrow> conn" where
  "tls_conn pr = \<lparr> conn_id = 0, conn_peer = pr, conn_tls = Some demo_server_config \<rparr>"

definition eof_sched :: "copy_act list" where
  "eof_sched =
     [Act F2B ([], EOF) (0, False), Act F2B ([], NoErr) (0, False),
      Act F2B ([], NoErr) (0, False)]"

definition backend_eof_sched :: "copy_act list" where
  "backend_eof_sched =
     [Act B2F (''bye'', EOF) (0, False), Act F2B (''ping'', NoErr) (0, False),
      Act B2F ([], NoErr) (3, False), Act B2F ([], NoErr) (0, False),
      Act F2B ([], NoErr) (4, False), Act B2F ([], NoErr) (0, False)]"

definition ping_sched :: "copy_act list" where
  "ping_sched =
     [Act F2B (''ping'', NoErr) (0, False), Act B2F (''pong'', NoErr) (0, False),
      Act B2F ([], NoErr) (4, False), Act F2B ([], NoErr) (4, False)]"

section \<open>Properties\<close>

lemmas model_defs = serveTCP_def serveTLS_def serve_def pipe_def relay_start_def
  accepted_session_def handshake_ok_def client_auth_ok_def pc_of_def set_pc_def
  conn_Read_def conn_Write_def deliver_def drop_error_def Let_def
  AppendCertsFromPEM_def NewCertPool_def LoadX509KeyPair_def zero_Config_def Second_def
  Start_def startTCP_def startTLS_def tls_Listen_def aborted_def listening_def
  run_def accept_step_def serve_step_def is_abort_def

lemmas demo_defs = demo_files_def demo_world_def demo_proxy_def plain_conn_def anon_def
  NewRProxy_def ToLower_def isASCII_def lower_byte_def char_of_eq_iff

subsection \<open>The exit path of the copy loops\<close>

lemma copy_step_inv: "exit_inv s \<Longrightarrow> exit_inv (copy_step hs a s)"
  apply (cases a)
  subgoal for d rd wr
    apply (cases d; cases "pc_of d s")
    apply (auto simp: exit_inv_def set_pc_def deliver_def pc_of_def Let_def split: prod.splits)
    done
  done

lemma relay_inv: "exit_inv s \<Longrightarrow> exit_inv (relay hs sched s)"
  by (induction sched arbitrary: s) (auto simp: copy_step_inv simp del: copy_step.simps)

lemma relay_start_inv: "exit_inv relay_start"
  by (simp add: exit_inv_def relay_start_def)

lemma accepted_session_inv:
  "exit_inv accepted_session" "exit_inv (accepted_session\<lparr>listenConn_open := b\<rparr>)"
  by (simp_all add: exit_inv_def accepted_session_def)

lemma pipe_inv: "pipe w c evs0 sched = (evs, s, out) \<Longrightarrow> exit_inv s"
  by (auto simp: pipe_def Let_def relay_inv relay_start_inv)

lemma pipe_events: "pipe w c evs0 sched = (evs, s, out) \<Longrightarrow> evs = evs0"
  by (simp add: pipe_def Let_def)

lemma serveTCP_inv: "serveTCP rp w c sched = (evs, s, out) \<Longrightarrow> exit_inv s"
  by (auto simp: serveTCP_def Let_def accepted_session_inv split: option.splits dest: pipe_inv)

lemma serveTLS_inv: "serveTLS rp w c sched = (evs, s, out) \<Longrightarrow> exit_inv s"
  by (auto simp: serveTLS_def Let_def accepted_session_inv
      split: option.splits sum.splits prod.splits if_splits dest: pipe_inv)

text \<open>
  C1. For every session of \<open>serveTCP\<close> and of \<open>serveTLS\<close>, whatever the two copy loops
  read and write and however their steps interleave: once either loop (front-to-back
  or back-to-front) has left \<open>io.Copy\<close> and run its exit path to the end, the listen
  connection and the backend connection are both closed.
\<close>

theorem copy_loop_exit_closes_both:
  assumes "serveTCP rp w c sched = (evs, s, out) \<or> serveTLS rp w c sched = (evs, s, out)"
    and "pc_f2b s = Fin \<or> pc_b2f s = Fin"
  shows "\<not> listenConn_open s \<and> \<not> backendConn_open s"
proof -
  from assms(1) have "exit_inv s"
    using serveTCP_inv serveTLS_inv by blast
  with assms(2) show ?thesis
    by (auto simp: exit_inv_def)
qed

theorem copy_loop_exit_closes_both_witness:
  "pc_f2b (fst (snd (serveTCP (demo_proxy ''tcp'' ''tcp'') demo_world plain_conn eof_sched))) = Fin
   \<and> \<not> listenConn_open
         (fst (snd (serveTCP (demo_proxy ''tcp'' ''tcp'') demo_world plain_conn eof_sched)))
   \<and> \<not> backendConn_open
         (fst (snd (serveTCP (demo_proxy ''tcp'' ''tcp'') demo_world plain_conn eof_sched)))
   \<and> pc_b2f (fst (snd (serveTLS (demo_proxy ''tcp'' ''tls'') demo_world plain_conn
         backend_eof_sched))) = Fin
   \<and> \<not> listenConn_open
         (fst (snd (serveTLS (demo_proxy ''tcp'' ''tls'') demo_world plain_conn backend_eof_sched)))
   \<and> \<not> backendConn_open
         (fst (snd (serveTLS (demo_proxy ''tcp'' ''tls'') demo_world plain_conn backend_eof_sched)))"
proof -
  let ?r = "serveTCP (demo_proxy ''tcp'' ''tcp'') demo_world plain_conn eof_sched"
  let ?t = "serveTLS (demo_proxy ''tcp'' ''tls'') demo_world plain_conn backend_eof_sched"
  have e: "?r = (fst ?r, fst (snd ?r), snd (snd ?r))"
    by simp
  have f: "pc_f2b (fst (snd ?r)) = Fin"
    by (simp add: model_defs demo_defs eof_sched_def)
  have e': "?t = (fst ?t, fst (snd ?t), snd (snd ?t))"
    by simp
  have f': "pc_b2f (fst (snd ?t)) = Fin"
    by (simp add: model_defs demo_defs backend_eof_sched_def)
  from copy_loop_exit_closes_both [OF disjI1 [OF e] disjI1 [OF f]]
    copy_loop_exit_closes_both [OF disjI2 [OF e'] disjI2 [OF f']] f f'
  show ?thesis
    by simp
qed

subsection \<open>A failed dial\<close>

lemma LoadX509KeyPair_events:
  "LoadX509KeyPair w cf kf = (evs, r) \<Longrightarrow> Dial i a t cfg \<notin> set evs"
  by (auto simp: LoadX509KeyPair_def split: sum.splits)

lemma serveTCP_dial_failed:
  assumes "serveTCP rp w c sched = (evs, s, out)"
    and "Dial i a t cfg \<in> set evs" and "net_dial w i a t cfg = Some err"
  shows "\<not> listenConn_open s \<and> \<not> backendConn_open s \<and> out = Returned (Some err)"
  using assms
  by (auto simp: serveTCP_def Let_def accepted_session_def split: option.splits
      dest!: pipe_events)

lemma serveTLS_dial_failed:
  assumes "serveTLS rp w c sched = (evs, s, out)"
    and "Dial i a t cfg \<in> set evs" and "net_dial w i a t cfg = Some err"
  shows "\<not> listenConn_open s \<and> \<not> backendConn_open s \<and> out = Returned (Some err)"
  using assms
  by (auto simp: serveTLS_def Let_def accepted_session_def
      split: option.splits sum.splits prod.splits if_splits
      dest!: pipe_events dest: LoadX509KeyPair_events)

text \<open>
  C2. For every accepted connection, in \<open>serveTCP\<close> and in \<open>serveTLS\<close>: when the dial
  to the backend that the function issued fails, the function returns that error with
  the listen connection closed, no backend connection open and no copy loop started.
\<close>

theorem dial_failure_closes_front:
  assumes "serveTCP rp w c sched = (evs, s, out) \<or> serveTLS rp w c sched = (evs, s, out)"
    and "Dial i a t cfg \<in> set evs" and "net_dial w i a t cfg = Some err"
  shows "\<not> listenConn_open s \<and> \<not> backendConn_open s \<and> out = Returned (Some err)
         \<and> pc_f2b s = Idle \<and> pc_b2f s = Idle"
proof -
  from assms(1) have a: "\<not> listenConn_open s \<and> \<not> backendConn_open s \<and> out = Returned (Some err)"
  proof
    assume "serveTCP rp w c sched = (evs, s, out)"
    then show ?thesis by (rule serveTCP_dial_failed [OF _ assms(2) assms(3)])
  next
    assume "serveTLS rp w c sched = (evs, s, out)"
    then show ?thesis by (rule serveTLS_dial_failed [OF _ assms(2) assms(3)])
  qed
  from assms(1) a have "pc_f2b s = Idle \<and> pc_b2f s = Idle"
    by (auto simp: serveTCP_def serveTLS_def Let_def accepted_session_def pipe_def
        split: option.splits sum.splits prod.splits if_splits)
  with a show ?thesis by simp
qed

theorem dial_failure_closes_front_witness:
  "Dial 0 ''127.0.0.1:9001'' None (Some demo_client_config)
     \<in> set (fst (serveTLS (demo_proxy ''tcp'' ''tls'') refusing_world plain_conn eof_sched))
   \<and> net_dial refusing_world 0 ''127.0.0.1:9001'' None (Some demo_client_config)
       = Some ''connection refused''
   \<and> \<not> listenConn_open
         (fst (snd (serveTLS (demo_proxy ''tcp'' ''tls'') refusing_world plain_conn eof_sched)))
   \<and> \<not> backendConn_open
         (fst (snd (serveTLS (demo_proxy ''tcp'' ''tls'') refusing_world plain_conn eof_sched)))
   \<and> snd (snd (serveTLS (demo_proxy ''tcp'' ''tls'') refusing_world plain_conn eof_sched))
       = Returned (Some ''connection refused'')
   \<and> Dial 0 ''127.0.0.1:9001'' (Some (30 * Second)) None
     \<in> set (fst (serveTCP (demo_proxy ''tcp'' ''tcp'') refusing_world plain_conn eof_sched))
   \<and> net_dial refusing_world 0 ''127.0.0.1:9001'' (Some (30 * Second)) None
       = Some ''connection refused''
   \<and> \<not> listenConn_open
         (fst (snd (serveTCP (demo_proxy ''tcp'' ''tcp'') refusing_world plain_conn eof_sched)))
   \<and> \<not> backendConn_open
         (fst (snd (serveTCP (demo_proxy ''tcp'' ''tcp'') refusing_world plain_conn eof_sched)))
   \<and> snd (snd (serveTCP (demo_proxy ''tcp'' ''tcp'') refusing_world plain_conn eof_sched))
       = Returned (Some ''connection refused'')"
proof -
  let ?r = "serveTLS (demo_proxy ''tcp'' ''tls'') refusing_world plain_conn eof_sched"
  let ?t = "serveTCP (demo_proxy ''tcp'' ''tcp'') refusing_world plain_conn eof_sched"
  have e: "?r = (fst ?r, fst (snd ?r), snd (snd ?r))"
    by simp
  have d: "Dial 0 ''127.0.0.1:9001'' None (Some demo_client_config) \<in> set (fst ?r)"
    by (simp add: model_defs demo_defs refusing_world_def demo_client_config_def)
  have n: "net_dial refusing_world 0 ''127.0.0.1:9001'' None (Some demo_client_config)
             = Some ''connection refused''"
    by (simp add: refusing_world_def)
  have e': "?t = (fst ?t, fst (snd ?t), snd (snd ?t))"
    by simp
  have d': "Dial 0 ''127.0.0.1:9001'' (Some (30 * Second)) None \<in> set (fst ?t)"
    by (simp add: model_defs demo_defs refusing_world_def)
  have n': "net_dial refusing_world 0 ''127.0.0.1:9001'' (Some (30 * Second)) None
             = Some ''connection refused''"
    by (simp add: refusing_world_def)
  from dial_failure_closes_front [OF disjI2 [OF e] d n]
    dial_failure_closes_front [OF disjI1 [OF e'] d' n'] d n d' n'
  show ?thesis
    by simp
qed

subsection \<open>The expected name of the encrypted backend\<close>

lemma serveTLS_server_name:
  assumes "serveTLS rp w c sched = (evs, s, out)" and "Dial i a t (Some cfg) \<in> set evs"
  shows "ServerName cfg = ''testapp-server''"
  using assms
  by (auto simp: serveTLS_def Let_def
      split: option.splits sum.splits prod.splits if_splits
      dest!: pipe_events dest: LoadX509KeyPair_events)

lemma serveTCP_no_tls_dial:
  assumes "serveTCP rp w c sched = (evs, s, out)"
  shows "Dial i a t (Some cfg) \<notin> set evs"
  using assms
  by (auto simp: serveTCP_def Let_def split: option.splits dest!: pipe_events)

text \<open>
  C9. For every configuration, environment, connection and schedule: every dial that
  \<open>serve\<close> or \<open>serveTLS\<close> issues with a \<open>tls.Config\<close> carries the server name
  \<open>testapp-server\<close>. The name is a literal of \<open>serveTLS\<close>; \<open>RProxy\<close> has no field for
  it and \<open>NewRProxy\<close> no argument.
\<close>

theorem backend_server_name_fixed:
  assumes "serve rp w c sched = (evs, s, out) \<or> serveTLS rp w c sched = (evs, s, out)"
    and "Dial i a t (Some cfg) \<in> set evs"
  shows "ServerName cfg = ''testapp-server''"
proof -
  from assms(1) consider
      (tcp) out' where "serveTCP rp w c sched = (evs, s, out')"
    | (tls) out' where "serveTLS rp w c sched = (evs, s, out')"
    | (none) "evs = []"
    by (auto simp: serve_def split: if_splits prod.splits)
  then show ?thesis
  proof cases
    case tcp
    from serveTCP_no_tls_dial [OF tcp] assms(2) show ?thesis by simp
  next
    case tls
    from serveTLS_server_name [OF tls assms(2)] show ?thesis .
  next
    case none
    with assms(2) show ?thesis by simp
  qed
qed

theorem backend_server_name_fixed_witness:
  "Dial 0 ''127.0.0.1:9001'' None (Some demo_client_config)
     \<in> set (fst (serve (demo_proxy ''tcp'' ''tls'') demo_world plain_conn eof_sched))
   \<and> ServerName demo_client_config = ''testapp-server''"
proof -
  let ?r = "serve (demo_proxy ''tcp'' ''tls'') demo_world plain_conn eof_sched"
  have e: "?r = (fst ?r, fst (snd ?r), snd (snd ?r))"
    by simp
  have d: "Dial 0 ''127.0.0.1:9001'' None (Some demo_client_config) \<in> set (fst ?r)"
    by (simp add: model_defs demo_defs demo_client_config_def)
  from backend_server_name_fixed [OF disjI1 [OF e] d] d show ?thesis
    by simp
qed

subsection \<open>Lower-casing in the constructor\<close>

lemma lower_byte_ascii: "of_char (lower_byte c) < (128::nat) \<Longrightarrow> of_char c < (128::nat)"
  by (auto simp: lower_byte_def split: if_splits)

lemma isASCII_lower: "isASCII (map lower_byte s) \<Longrightarrow> isASCII s"
  by (induction s) (auto simp: isASCII_def lower_byte_ascii)

lemma ToLower_kind:
  assumes "map lower_byte s = k" and "isASCII k"
  shows "ToLower u s = k"
proof -
  from assms have "isASCII s" by (auto intro: isASCII_lower)
  with assms(1) show ?thesis by (simp add: ToLower_def)
qed

lemma isASCII_kinds: "isASCII ''tcp''" "isASCII ''tls''"
  by (simp_all add: isASCII_def)

text \<open>
  C10. For all nine arguments, \<open>NewRProxy\<close> stores the listen kind, the listen address,
  the backend kind and the backend address through \<open>strings.ToLower\<close> and the five file
  paths as given. On an ASCII argument \<open>ToLower\<close> lowers the letters \<open>A..Z\<close>, so a kind
  that differs from \<open>tcp\<close> or \<open>tls\<close> only in the case of its letters selects the same
  branch of \<open>Start\<close> and of \<open>serve\<close> as the lower-case spelling.
\<close>

theorem NewRProxy_lowercases:
  "(let rp = NewRProxy u lp la bp ba rc sc sk cc ck in
      listenProto rp = ToLower u lp \<and> listenAddr rp = ToLower u la \<and>
      backendProto rp = ToLower u bp \<and> backendAddr rp = ToLower u ba \<and>
      rootCert rp = rc \<and> serverCert rp = sc \<and> serverKey rp = sk \<and>
      clientCert rp = cc \<and> clientKey rp = ck \<and>
      (isASCII lp \<longrightarrow> listenProto rp = map lower_byte lp) \<and>
      (isASCII bp \<longrightarrow> backendProto rp = map lower_byte bp) \<and>
      (map lower_byte lp = ''tcp'' \<longrightarrow> Start rp w = startTCP rp w) \<and>
      (map lower_byte lp = ''tls'' \<longrightarrow> Start rp w = startTLS rp w) \<and>
      (map lower_byte bp = ''tcp'' \<longrightarrow>
         serve rp w c sched =
           (case serveTCP rp w c sched of (evs, s, out) \<Rightarrow> (evs, s, drop_error out))) \<and>
      (map lower_byte bp = ''tls'' \<longrightarrow>
         serve rp w c sched =
           (case serveTLS rp w c sched of (evs, s, out) \<Rightarrow> (evs, s, drop_error out))))"
proof -
  have 1: "map lower_byte lp = ''tcp'' \<Longrightarrow> ToLower u lp = ''tcp''"
    by (rule ToLower_kind) (simp_all add: isASCII_kinds)
  have 2: "map lower_byte lp = ''tls'' \<Longrightarrow> ToLower u lp = ''tls''"
    by (rule ToLower_kind) (simp_all add: isASCII_kinds)
  have 3: "map lower_byte bp = ''tcp'' \<Longrightarrow> ToLower u bp = ''tcp''"
    by (rule ToLower_kind) (simp_all add: isASCII_kinds)
  have 4: "map lower_byte bp = ''tls'' \<Longrightarrow> ToLower u bp = ''tls''"
    by (rule ToLower_kind) (simp_all add: isASCII_kinds)
  show ?thesis
    unfolding Let_def NewRProxy_def Start_def serve_def
    using 1 2 3 4 by (simp add: ToLower_def)
qed

theorem NewRProxy_lowercases_witness:
  "map lower_byte ''TCP'' = ''tcp'' \<and> map lower_byte ''Tls'' = ''tls'' \<and>
   isASCII ''TCP'' \<and> isASCII ''Tls'' \<and>
   listenProto (demo_proxy ''TCP'' ''Tls'') = ''tcp'' \<and>
   backendProto (demo_proxy ''TCP'' ''Tls'') = ''tls'' \<and>
   Start (demo_proxy ''TCP'' ''Tls'') demo_world = startTCP (demo_proxy ''TCP'' ''Tls'') demo_world \<and>
   serve (demo_proxy ''TCP'' ''Tls'') demo_world plain_conn eof_sched =
     (case serveTLS (demo_proxy ''TCP'' ''Tls'') demo_world plain_conn eof_sched of
        (evs, s, out) \<Rightarrow> (evs, s, drop_error out)) \<and>
   Start (demo_proxy ''Tls'' ''TCP'') demo_world = startTLS (demo_proxy ''Tls'' ''TCP'') demo_world \<and>
   serve (demo_proxy ''Tls'' ''TCP'') demo_world plain_conn eof_sched =
     (case serveTCP (demo_proxy ''Tls'' ''TCP'') demo_world plain_conn eof_sched of
        (evs, s, out) \<Rightarrow> (evs, s, drop_error out))"
proof -
  have h: "map lower_byte ''TCP'' = ''tcp''" "map lower_byte ''Tls'' = ''tls''"
    "isASCII ''TCP''" "isASCII ''Tls''"
    by (simp_all add: lower_byte_def isASCII_def char_of_eq_iff)
  from h
    NewRProxy_lowercases [where u = id and lp = "''TCP''" and la = "''127.0.0.1:9000''"
      and bp = "''Tls''" and ba = "''127.0.0.1:9001''" and rc = "''root.pem''"
      and sc = "''server.pem''" and sk = "''server.key''" and cc = "''client.pem''"
      and ck = "''client.key''" and w = demo_world and c = plain_conn and sched = eof_sched]
    NewRProxy_lowercases [where u = id and lp = "''Tls''" and la = "''127.0.0.1:9000''"
      and bp = "''TCP''" and ba = "''127.0.0.1:9001''" and rc = "''root.pem''"
      and sc = "''server.pem''" and sk = "''server.key''" and cc = "''client.pem''"
      and ck = "''client.key''" and w = demo_world and c = plain_conn and sched = eof_sched]
  show ?thesis
    unfolding demo_proxy_def Let_def by (simp add: ToLower_def)
qed

subsection \<open>The accept loop\<close>

lemma proc_step_status: "status (proc_step rp w (DoAccept r) p) = status p"
  by (cases r) (simp_all add: accept_step_def)

lemma steps_dead: "status p \<noteq> Running \<Longrightarrow> steps rp w acts p = p"
proof (induction acts arbitrary: p)
  case Nil
  then show ?case by simp
next
  case (Cons a acts)
  then show ?case by (cases a) simp_all
qed

text \<open>
  C8. In a process that is in its accept loop, an \<open>Accept\<close> that returns an error only
  appends the log line \<open>accept error (...)\<close>: the process stays in the loop, and the
  next \<open>Accept\<close> that returns a connection accepts it. No return of \<open>Accept\<close>, error
  or connection, takes the process out of the loop. A listen address that cannot be
  bound at start-up aborts the process with a panic carrying the error, for the plain
  and for the encrypted listener, with no connection accepted.
\<close>

theorem accept_errors_not_fatal:
  "(status p = Running \<longrightarrow>
      proc_step rp w (DoAccept (Inl err)) p =
        p\<lparr>trace := trace p @ [Log (''accept error ('' @ err @ '')'' @ [CHR 0x0A])]\<rparr>) \<and>
   (status p = Running \<longrightarrow> status (proc_step rp w (DoAccept r) p) = Running) \<and>
   (status p = Running \<longrightarrow>
      accepted (proc_step rp w (DoAccept (Inr pr)) (proc_step rp w (DoAccept (Inl err)) p)) =
        accepted p @ [\<lparr>conn_id = length (accepted p), conn_peer = pr, conn_tls = ln_config p\<rparr>]) \<and>
   (ResolveTCPAddr w (listenAddr rp) = Inr lAddr \<and> net_listen w lAddr = Some e \<longrightarrow>
      status (startTCP rp w) = Panic e \<and> accepted (startTCP rp w) = []) \<and>
   (files w (rootCert rp) = Inr pem \<and> pem_certs w pem \<noteq> [] \<and>
    snd (LoadX509KeyPair w (serverCert rp) (serverKey rp)) = Inr cert \<and>
    net_listen w (listenAddr rp) = Some e \<longrightarrow>
      status (startTLS rp w) = Panic e \<and> accepted (startTLS rp w) = [])"
  by (auto simp: accept_step_def startTCP_def startTLS_def aborted_def listening_def
      tls_Listen_def Let_def proc_step_status AppendCertsFromPEM_def NewCertPool_def
      split: sum.splits option.splits prod.splits if_splits)

theorem accept_errors_not_fatal_witness:
  "status (Start (demo_proxy ''tcp'' ''tcp'') demo_world) = Running \<and>
   proc_step (demo_proxy ''tcp'' ''tcp'') demo_world (DoAccept (Inl ''too many open files''))
       (Start (demo_proxy ''tcp'' ''tcp'') demo_world) =
     (Start (demo_proxy ''tcp'' ''tcp'') demo_world)
       \<lparr>trace := trace (Start (demo_proxy ''tcp'' ''tcp'') demo_world)
          @ [Log (''accept error ('' @ ''too many open files'' @ '')'' @ [CHR 0x0A])]\<rparr> \<and>
   status (proc_step (demo_proxy ''tcp'' ''tcp'') demo_world (DoAccept (Inl ''too many open files''))
       (Start (demo_proxy ''tcp'' ''tcp'') demo_world)) = Running \<and>
   accepted (proc_step (demo_proxy ''tcp'' ''tcp'') demo_world (DoAccept (Inr anon))
       (proc_step (demo_proxy ''tcp'' ''tcp'') demo_world (DoAccept (Inl ''too many open files''))
          (Start (demo_proxy ''tcp'' ''tcp'') demo_world))) =
     accepted (Start (demo_proxy ''tcp'' ''tcp'') demo_world)
       @ [\<lparr>conn_id = length (accepted (Start (demo_proxy ''tcp'' ''tcp'') demo_world)),
           conn_peer = anon,
           conn_tls = ln_config (Start (demo_proxy ''tcp'' ''tcp'') demo_world)\<rparr>] \<and>
   status (startTCP (demo_proxy ''tcp'' ''tcp'') busy_world) = Panic ''address already in use'' \<and>
   status (startTLS (demo_proxy ''tls'' ''tcp'') busy_world) = Panic ''address already in use''"
proof -
  let ?P = "demo_proxy ''tcp'' ''tcp''"
  let ?Q = "demo_proxy ''tls'' ''tcp''"
  have r: "status (Start ?P demo_world) = Running"
    by (simp add: model_defs demo_defs)
  have b1: "ResolveTCPAddr busy_world (listenAddr ?P) = Inr ''127.0.0.1:9000'' \<and>
            net_listen busy_world ''127.0.0.1:9000'' = Some ''address already in use''"
    by (simp add: busy_world_def demo_defs)
  have b2: "files busy_world (rootCert ?Q) = Inr ''PEM root.pem'' \<and>
            pem_certs busy_world ''PEM root.pem'' \<noteq> [] \<and>
            snd (LoadX509KeyPair busy_world (serverCert ?Q) (serverKey ?Q))
              = Inr ''PEM server.pem with PEM server.key'' \<and>
            net_listen busy_world (listenAddr ?Q) = Some ''address already in use''"
    by (simp add: busy_world_def demo_defs LoadX509KeyPair_def)
  from r b1 b2
    accept_errors_not_fatal [where p = "Start ?P demo_world" and rp = ?P and w = demo_world
      and err = "''too many open files''" and r = "Inl ''too many open files''" and pr = anon]
    accept_errors_not_fatal [where rp = ?P and w = busy_world and lAddr = "''127.0.0.1:9000''"
      and e = "''address already in use''"]
    accept_errors_not_fatal [where rp = ?Q and w = busy_world and pem = "''PEM root.pem''"
      and cert = "''PEM server.pem with PEM server.key''" and e = "''address already in use''"]
  show ?thesis by simp
qed

subsection \<open>Unsupported transport kinds\<close>




subsection \<open>The timeout of the dial\<close>

text \<open>
  C5. \<open>serveTCP\<close> dials with \<open>net.DialTimeout\<close> and 30 seconds; \<open>serveTLS\<close> dials with
  \<open>tls.Dial\<close>, which takes no timeout. In the example environment the dial of
  \<open>serveTLS\<close> carries no timeout and the dial of \<open>serveTCP\<close> carries 30000000000
  nanoseconds.
\<close>

theorem encrypted_dial_has_no_timeout:
  "fst (serveTLS (demo_proxy ''tcp'' ''tls'') demo_world plain_conn []) =
     [ReadFile ''root.pem'', ReadFile ''client.pem'', ReadFile ''client.key'',
      Dial 0 ''127.0.0.1:9001'' None (Some demo_client_config)] \<and>
   fst (serveTCP (demo_proxy ''tcp'' ''tcp'') demo_world plain_conn []) =
     [Dial 0 ''127.0.0.1:9001'' (Some 30000000000) None]"
  by (simp add: model_defs demo_defs demo_client_config_def)

subsection \<open>The client configuration of the encrypted backend\<close>

lemma serveTLS_first_event: "take 1 (fst (serveTLS rp w c sched)) = [ReadFile (rootCert rp)]"
  by (auto simp: serveTLS_def Let_def pipe_def split: sum.splits prod.splits option.splits)

lemma serve_step_tls:
  assumes "backendProto rp = ''tls''" and "status p = Running" and "i < length (accepted p)"
    and "i \<notin> set (map fst (sessions p))"
  shows "trace (proc_step rp w (DoServe i sched) p)
           = trace p @ fst (serveTLS rp w (accepted p ! i) sched)"
    and "status (proc_step rp w (DoServe i sched) p)
           = (if is_abort (snd (snd (serveTLS rp w (accepted p ! i) sched)))
              then snd (snd (serveTLS rp w (accepted p ! i) sched)) else Running)"
  using assms
  by (auto simp: serve_step_def serve_def drop_error_def is_abort_def
      split: prod.splits outcome.splits)

text \<open>
  C4 (as the code has it). The client configuration is built inside \<open>serveTLS\<close>, for
  every connection served through the encrypted backend: \<open>serveTLS\<close> begins by reading
  the root file, and when the root file holds a certificate and the client pair loads,
  it reads the client certificate and key files and dials with a configuration made of
  what it has just read (the root pool, the server name, the pair). Each goroutine of
  a \<open>tls\<close> backend adds these reads to what the process does.
\<close>

theorem client_context_built_by_each_session:
  "take 1 (fst (serveTLS rp w c sched)) = [ReadFile (rootCert rp)] \<and>
   (files w (rootCert rp) = Inr rootPEM \<and> pem_certs w rootPEM \<noteq> [] \<and>
    files w (clientCert rp) = Inr certPEM \<and> files w (clientKey rp) = Inr keyPEM \<and>
    X509KeyPair w certPEM keyPEM = Inr cert \<longrightarrow>
      fst (serveTLS rp w c sched) =
        [ReadFile (rootCert rp), ReadFile (clientCert rp), ReadFile (clientKey rp),
         Dial (conn_id c) (backendAddr rp) None
           (Some \<lparr>RootCAs = Some (pem_certs w rootPEM), ClientCAs = None,
                  ClientAuth = NoClientCert, ServerName = ''testapp-server'',
                  Certificates = [cert]\<rparr>)]) \<and>
   (backendProto rp = ''tls'' \<and> status p = Running \<and> i < length (accepted p) \<and>
    i \<notin> set (map fst (sessions p)) \<longrightarrow>
      trace (proc_step rp w (DoServe i sched) p)
        = trace p @ fst (serveTLS rp w (accepted p ! i) sched))"
proof -
  have 2: "files w (rootCert rp) = Inr rootPEM \<and> pem_certs w rootPEM \<noteq> [] \<and>
    files w (clientCert rp) = Inr certPEM \<and> files w (clientKey rp) = Inr keyPEM \<and>
    X509KeyPair w certPEM keyPEM = Inr cert \<longrightarrow>
      fst (serveTLS rp w c sched) =
        [ReadFile (rootCert rp), ReadFile (clientCert rp), ReadFile (clientKey rp),
         Dial (conn_id c) (backendAddr rp) None
           (Some \<lparr>RootCAs = Some (pem_certs w rootPEM), ClientCAs = None,
                  ClientAuth = NoClientCert, ServerName = ''testapp-server'',
                  Certificates = [cert]\<rparr>)]"
    by (auto simp: serveTLS_def Let_def pipe_def AppendCertsFromPEM_def NewCertPool_def
        LoadX509KeyPair_def zero_Config_def split: option.splits)
  from serveTLS_first_event 2 serve_step_tls(1) show ?thesis
    by blast
qed

theorem client_context_built_by_each_session_witness:
  "files demo_world (rootCert (demo_proxy ''tcp'' ''tls'')) = Inr ''PEM root.pem'' \<and>
   pem_certs demo_world ''PEM root.pem'' \<noteq> [] \<and>
   fst (serveTLS (demo_proxy ''tcp'' ''tls'') demo_world plain_conn eof_sched) =
     [ReadFile (rootCert (demo_proxy ''tcp'' ''tls'')),
      ReadFile (clientCert (demo_proxy ''tcp'' ''tls'')),
      ReadFile (clientKey (demo_proxy ''tcp'' ''tls'')),
      Dial (conn_id plain_conn) (backendAddr (demo_proxy ''tcp'' ''tls'')) None
        (Some \<lparr>RootCAs = Some (pem_certs demo_world ''PEM root.pem''), ClientCAs = None,
               ClientAuth = NoClientCert, ServerName = ''testapp-server'',
               Certificates = [''PEM client.pem with PEM client.key'']\<rparr>)] \<and>
   trace (proc_step (demo_proxy ''tcp'' ''tls'') demo_world (DoServe 0 eof_sched)
            (run (demo_proxy ''tcp'' ''tls'') demo_world [DoAccept (Inr anon)]))
     = trace (run (demo_proxy ''tcp'' ''tls'') demo_world [DoAccept (Inr anon)])
         @ fst (serveTLS (demo_proxy ''tcp'' ''tls'') demo_world
                  (accepted (run (demo_proxy ''tcp'' ''tls'') demo_world [DoAccept (Inr anon)]) ! 0)
                  eof_sched)"
proof -
  let ?P = "demo_proxy ''tcp'' ''tls''"
  let ?p = "run ?P demo_world [DoAccept (Inr anon)]"
  have h1: "files demo_world (rootCert ?P) = Inr ''PEM root.pem'' \<and>
            pem_certs demo_world ''PEM root.pem'' \<noteq> [] \<and>
            files demo_world (clientCert ?P) = Inr ''PEM client.pem'' \<and>
            files demo_world (clientKey ?P) = Inr ''PEM client.key'' \<and>
            X509KeyPair demo_world ''PEM client.pem'' ''PEM client.key''
              = Inr ''PEM client.pem with PEM client.key''"
    by (simp add: demo_defs)
  have h2: "backendProto ?P = ''tls'' \<and> status ?p = Running \<and> 0 < length (accepted ?p) \<and>
            0 \<notin> set (map fst (sessions ?p))"
    by (simp add: model_defs demo_defs)
  from h1 h2
    client_context_built_by_each_session [where rp = ?P and w = demo_world and c = plain_conn
      and sched = eof_sched and rootPEM = "''PEM root.pem''" and certPEM = "''PEM client.pem''"
      and keyPEM = "''PEM client.key''" and cert = "''PEM client.pem with PEM client.key''"
      and p = ?p and i = 0]
  show ?thesis by simp
qed

text \<open>
  C4 as stated fails. With a plain listener and an encrypted backend, start-up reads
  no file; two accepted connections, each served, make the process read the root file,
  the client certificate and the client key twice, once in each session, before each
  dial.
\<close>

theorem client_context_rebuilt_per_connection:
  "trace (Start (demo_proxy ''tcp'' ''tls'') demo_world) =
     [Resolve ''127.0.0.1:9000'', Listen ''127.0.0.1:9000'' None] \<and>
   trace (run (demo_proxy ''tcp'' ''tls'') demo_world
            [DoAccept (Inr anon), DoAccept (Inr anon), DoServe 0 [], DoServe 1 []]) =
     [Resolve ''127.0.0.1:9000'', Listen ''127.0.0.1:9000'' None, Accepted 0, Accepted 1,
      ReadFile ''root.pem'', ReadFile ''client.pem'', ReadFile ''client.key'',
      Dial 0 ''127.0.0.1:9001'' None (Some demo_client_config),
      ReadFile ''root.pem'', ReadFile ''client.pem'', ReadFile ''client.key'',
      Dial 1 ''127.0.0.1:9001'' None (Some demo_client_config)]"
  by (simp add: model_defs demo_defs demo_client_config_def)

lemma Start_plain_ignores_files:
  "listenProto rp = ''tcp'' \<Longrightarrow>
     Start rp (w\<lparr>files := f, pem_certs := g, X509KeyPair := k\<rparr>) = Start rp w"
  by (simp add: Start_def startTCP_def split: sum.split option.split)

lemma Start_plain_listens:
  assumes "listenProto rp = ''tcp''" and "ResolveTCPAddr w (listenAddr rp) = Inr lAddr"
    and "net_listen w lAddr = None"
  shows "Start rp w = listening [Resolve (listenAddr rp), Listen lAddr None] None"
    and "accepted (proc_step rp w (DoAccept (Inr pr)) (Start rp w)) =
           [\<lparr>conn_id = 0, conn_peer = pr, conn_tls = None\<rparr>]"
  using assms by (simp_all add: Start_def startTCP_def listening_def accept_step_def)

lemma Start_tls_root_failures:
  assumes "listenProto rp = ''tls''"
  shows "files w (rootCert rp) = Inl e \<Longrightarrow>
           Start rp w = aborted [ReadFile (rootCert rp)] (Panic ''failed to load root certificate'')"
    and "files w (rootCert rp) = Inr pem \<Longrightarrow> pem_certs w pem = [] \<Longrightarrow>
           Start rp w = aborted [ReadFile (rootCert rp)] (Panic ''failed to parse root certificate'')"
  using assms by (simp_all add: Start_def startTLS_def AppendCertsFromPEM_def)


text \<open>
  C7 (as the code has it). A failure to build the client configuration aborts the
  process, and \<open>serveTLS\<close> raises it while an accepted connection is served, before any
  dial and with the listen connection left open: an unreadable root file ends in
  \<open>log.Fatalf\<close>, a root file without a certificate and a client pair that does not
  load end in a panic; a goroutine of a \<open>tls\<close> backend that ends so takes the process
  with it. \<open>Start\<close> does not depend on the client certificate and key paths. With a
  plain listener \<open>Start\<close> does not depend on the credential files at all: once the
  listen address resolves and binds, the process is in the accept loop, having read no
  file, and accepts a connection. With an encrypted listener \<open>startTLS\<close> reads the
  same root file for the server configuration, so an unreadable root file or one
  without a certificate aborts already at start-up, with nothing bound.
\<close>

theorem client_context_failure_aborts_when_serving:
  "(files w (rootCert rp) = Inl e \<longrightarrow>
      serveTLS rp w c sched =
        ([ReadFile (rootCert rp)], accepted_session, Fatal ''failed to load root certificate'')) \<and>
   (files w (rootCert rp) = Inr pem \<and> pem_certs w pem = [] \<longrightarrow>
      serveTLS rp w c sched =
        ([ReadFile (rootCert rp)], accepted_session, Panic ''failed to parse root certificate'')) \<and>
   (files w (rootCert rp) = Inr pem \<and> pem_certs w pem \<noteq> [] \<and>
    LoadX509KeyPair w (clientCert rp) (clientKey rp) = (evs, Inl e) \<longrightarrow>
      serveTLS rp w c sched =
        (ReadFile (rootCert rp) # evs, accepted_session,
         Panic ''failed to load client tls certificate'')) \<and>
   (backendProto rp = ''tls'' \<and> status p = Running \<and> i < length (accepted p) \<and>
    i \<notin> set (map fst (sessions p)) \<and>
    is_abort (snd (snd (serveTLS rp w (accepted p ! i) sched))) \<longrightarrow>
      status (proc_step rp w (DoServe i sched) p)
        = snd (snd (serveTLS rp w (accepted p ! i) sched))) \<and>
   Start (rp\<lparr>clientCert := cc, clientKey := ck\<rparr>) w = Start rp w \<and>
   (listenProto rp = ''tcp'' \<longrightarrow>
      Start rp (w\<lparr>files := f, pem_certs := g, X509KeyPair := k\<rparr>) = Start rp w) \<and>
   (listenProto rp = ''tcp'' \<and> ResolveTCPAddr w (listenAddr rp) = Inr lAddr \<and>
    net_listen w lAddr = None \<longrightarrow>
      Start rp w = listening [Resolve (listenAddr rp), Listen lAddr None] None \<and>
      accepted (proc_step rp w (DoAccept (Inr pr)) (Start rp w)) =
        [\<lparr>conn_id = 0, conn_peer = pr, conn_tls = None\<rparr>]) \<and>
   (listenProto rp = ''tls'' \<and> files w (rootCert rp) = Inl e \<longrightarrow>
      Start rp w = aborted [ReadFile (rootCert rp)] (Panic ''failed to load root certificate'')) \<and>
   (listenProto rp = ''tls'' \<and> files w (rootCert rp) = Inr pem \<and> pem_certs w pem = [] \<longrightarrow>
      Start rp w = aborted [ReadFile (rootCert rp)] (Panic ''failed to parse root certificate''))"
proof -
  have 1: "files w (rootCert rp) = Inl e \<longrightarrow>
      serveTLS rp w c sched =
        ([ReadFile (rootCert rp)], accepted_session, Fatal ''failed to load root certificate'')"
    by (simp add: serveTLS_def)
  have 2: "files w (rootCert rp) = Inr pem \<and> pem_certs w pem = [] \<longrightarrow>
      serveTLS rp w c sched =
        ([ReadFile (rootCert rp)], accepted_session, Panic ''failed to parse root certificate'')"
    by (simp add: serveTLS_def AppendCertsFromPEM_def)
  have 3: "files w (rootCert rp) = Inr pem \<and> pem_certs w pem \<noteq> [] \<and>
    LoadX509KeyPair w (clientCert rp) (clientKey rp) = (evs, Inl e) \<longrightarrow>
      serveTLS rp w c sched =
        (ReadFile (rootCert rp) # evs, accepted_session,
         Panic ''failed to load client tls certificate'')"
    by (simp add: serveTLS_def AppendCertsFromPEM_def)
  have 4: "backendProto rp = ''tls'' \<and> status p = Running \<and> i < length (accepted p) \<and>
    i \<notin> set (map fst (sessions p)) \<and>
    is_abort (snd (snd (serveTLS rp w (accepted p ! i) sched))) \<longrightarrow>
      status (proc_step rp w (DoServe i sched) p)
        = snd (snd (serveTLS rp w (accepted p ! i) sched))"
    using serve_step_tls(2) [of rp p i w sched] by simp
  have 5: "Start (rp\<lparr>clientCert := cc, clientKey := ck\<rparr>) w = Start rp w"
    by (simp add: Start_def startTCP_def startTLS_def Let_def
        split: sum.split prod.split option.split)
  have 6: "listenProto rp = ''tcp'' \<longrightarrow>
      Start rp (w\<lparr>files := f, pem_certs := g, X509KeyPair := k\<rparr>) = Start rp w"
    using Start_plain_ignores_files by blast
  have 7: "listenProto rp = ''tcp'' \<and> ResolveTCPAddr w (listenAddr rp) = Inr lAddr \<and>
    net_listen w lAddr = None \<longrightarrow>
      Start rp w = listening [Resolve (listenAddr rp), Listen lAddr None] None \<and>
      accepted (proc_step rp w (DoAccept (Inr pr)) (Start rp w)) =
        [\<lparr>conn_id = 0, conn_peer = pr, conn_tls = None\<rparr>]"
    using Start_plain_listens by blast
  have 8: "listenProto rp = ''tls'' \<and> files w (rootCert rp) = Inl e \<longrightarrow>
      Start rp w = aborted [ReadFile (rootCert rp)] (Panic ''failed to load root certificate'')"
    using Start_tls_root_failures(1) by blast
  have 9: "listenProto rp = ''tls'' \<and> files w (rootCert rp) = Inr pem \<and> pem_certs w pem = [] \<longrightarrow>
      Start rp w = aborted [ReadFile (rootCert rp)] (Panic ''failed to parse root certificate'')"
    using Start_tls_root_failures(2) by blast
  from 1 2 3 4 5 6 7 8 9 show ?thesis by (intro conjI)
qed


theorem client_context_failure_aborts_when_serving_witness:
  "files no_files_world (rootCert (demo_proxy ''tcp'' ''tls'')) = Inl ''no such file'' \<and>
   serveTLS (demo_proxy ''tcp'' ''tls'') no_files_world plain_conn eof_sched =
     ([ReadFile (rootCert (demo_proxy ''tcp'' ''tls''))], accepted_session,
      Fatal ''failed to load root certificate'') \<and>
   pem_certs empty_root_world ''PEM root.pem'' = [] \<and>
   serveTLS (demo_proxy ''tcp'' ''tls'') empty_root_world plain_conn eof_sched =
     ([ReadFile (rootCert (demo_proxy ''tcp'' ''tls''))], accepted_session,
      Panic ''failed to parse root certificate'') \<and>
   LoadX509KeyPair no_client_world (clientCert (demo_proxy ''tcp'' ''tls''))
       (clientKey (demo_proxy ''tcp'' ''tls''))
     = ([ReadFile ''client.pem''], Inl ''no such file'') \<and>
   serveTLS (demo_proxy ''tcp'' ''tls'') no_client_world plain_conn eof_sched =
     ([ReadFile (rootCert (demo_proxy ''tcp'' ''tls'')), ReadFile ''client.pem''],
      accepted_session, Panic ''failed to load client tls certificate'') \<and>
   is_abort (snd (snd (serveTLS (demo_proxy ''tcp'' ''tls'') no_files_world
       (accepted (run (demo_proxy ''tcp'' ''tls'') no_files_world [DoAccept (Inr anon)]) ! 0)
       eof_sched))) \<and>
   status (proc_step (demo_proxy ''tcp'' ''tls'') no_files_world (DoServe 0 eof_sched)
       (run (demo_proxy ''tcp'' ''tls'') no_files_world [DoAccept (Inr anon)]))
     = snd (snd (serveTLS (demo_proxy ''tcp'' ''tls'') no_files_world
         (accepted (run (demo_proxy ''tcp'' ''tls'') no_files_world [DoAccept (Inr anon)]) ! 0)
         eof_sched)) \<and>
   listenProto (demo_proxy ''tcp'' ''tls'') = ''tcp'' \<and>
   Start (demo_proxy ''tcp'' ''tls'')
       (demo_world\<lparr>files := (\<lambda>path. Inl ''no such file''), pem_certs := (\<lambda>pem. []),
                    X509KeyPair := (\<lambda>certPEM keyPEM. Inl ''no pair'')\<rparr>)
     = Start (demo_proxy ''tcp'' ''tls'') demo_world \<and>
   Start (demo_proxy ''tcp'' ''tls'') no_files_world =
     listening [Resolve (listenAddr (demo_proxy ''tcp'' ''tls'')), Listen ''127.0.0.1:9000'' None]
       None \<and>
   accepted (proc_step (demo_proxy ''tcp'' ''tls'') no_files_world (DoAccept (Inr anon))
       (Start (demo_proxy ''tcp'' ''tls'') no_files_world)) =
     [\<lparr>conn_id = 0, conn_peer = anon, conn_tls = None\<rparr>] \<and>
   listenProto (demo_proxy ''tls'' ''tls'') = ''tls'' \<and>
   Start (demo_proxy ''tls'' ''tls'') no_files_world =
     aborted [ReadFile (rootCert (demo_proxy ''tls'' ''tls''))]
       (Panic ''failed to load root certificate'') \<and>
   Start (demo_proxy ''tls'' ''tls'') empty_root_world =
     aborted [ReadFile (rootCert (demo_proxy ''tls'' ''tls''))]
       (Panic ''failed to parse root certificate'')"
proof -
  let ?P = "demo_proxy ''tcp'' ''tls''"
  let ?T = "demo_proxy ''tls'' ''tls''"
  let ?p = "run ?P no_files_world [DoAccept (Inr anon)]"
  have h1: "files no_files_world (rootCert ?P) = Inl ''no such file''"
    by (simp add: demo_defs no_files_world_def)
  have h2: "files empty_root_world (rootCert ?P) = Inr ''PEM root.pem'' \<and>
            pem_certs empty_root_world ''PEM root.pem'' = []"
    by (simp add: demo_defs empty_root_world_def)
  have h3: "files no_client_world (rootCert ?P) = Inr ''PEM root.pem'' \<and>
            pem_certs no_client_world ''PEM root.pem'' \<noteq> [] \<and>
            LoadX509KeyPair no_client_world (clientCert ?P) (clientKey ?P)
              = ([ReadFile ''client.pem''], Inl ''no such file'')"
    by (simp add: demo_defs no_client_world_def LoadX509KeyPair_def)
  have h4: "backendProto ?P = ''tls'' \<and> status ?p = Running \<and> 0 < length (accepted ?p) \<and>
            0 \<notin> set (map fst (sessions ?p)) \<and>
            is_abort (snd (snd (serveTLS ?P no_files_world (accepted ?p ! 0) eof_sched)))"
    by (simp add: model_defs demo_defs no_files_world_def)
  have h6: "listenProto ?P = ''tcp''"
    by (simp add: demo_defs)
  have h7: "listenProto ?P = ''tcp'' \<and>
            ResolveTCPAddr no_files_world (listenAddr ?P) = Inr ''127.0.0.1:9000'' \<and>
            net_listen no_files_world ''127.0.0.1:9000'' = None"
    by (simp add: demo_defs no_files_world_def)
  have h8: "listenProto ?T = ''tls'' \<and> files no_files_world (rootCert ?T) = Inl ''no such file''"
    by (simp add: demo_defs no_files_world_def)
  have h9: "listenProto ?T = ''tls'' \<and> files empty_root_world (rootCert ?T) = Inr ''PEM root.pem'' \<and>
            pem_certs empty_root_world ''PEM root.pem'' = []"
    by (simp add: demo_defs empty_root_world_def)
  note a = client_context_failure_aborts_when_serving [where rp = ?P and w = no_files_world
      and c = plain_conn and sched = eof_sched and e = "''no such file''" and p = ?p and i = 0
      and lAddr = "''127.0.0.1:9000''" and pr = anon]
  note b = client_context_failure_aborts_when_serving [where rp = ?P and w = empty_root_world
      and c = plain_conn and sched = eof_sched and pem = "''PEM root.pem''"]
  note c = client_context_failure_aborts_when_serving [where rp = ?P and w = no_client_world
      and c = plain_conn and sched = eof_sched and pem = "''PEM root.pem''"
      and evs = "[ReadFile ''client.pem'']" and e = "''no such file''"]
  note d = client_context_failure_aborts_when_serving [where rp = ?P and w = demo_world
      and f = "\<lambda>path. Inl ''no such file''" and g = "\<lambda>pem. []"
      and k = "\<lambda>certPEM keyPEM. Inl ''no pair''"]
  note t = client_context_failure_aborts_when_serving [where rp = ?T and w = no_files_world
      and e = "''no such file''"]
  note u = client_context_failure_aborts_when_serving [where rp = ?T and w = empty_root_world
      and pem = "''PEM root.pem''"]
  note c1 = a [THEN conjunct1, THEN mp, OF h1]
  note c2 = b [THEN conjunct2, THEN conjunct1, THEN mp, OF h2]
  note c3 = c [THEN conjunct2, THEN conjunct2, THEN conjunct1, THEN mp, OF h3]
  note c4 = a [THEN conjunct2, THEN conjunct2, THEN conjunct2, THEN conjunct1, THEN mp, OF h4]
  note c6 = d [THEN conjunct2, THEN conjunct2, THEN conjunct2, THEN conjunct2, THEN conjunct2,
      THEN conjunct1, THEN mp, OF h6]
  note c7 = a [THEN conjunct2, THEN conjunct2, THEN conjunct2, THEN conjunct2, THEN conjunct2,
      THEN conjunct2, THEN conjunct1, THEN mp, OF h7]
  note c8 = t [THEN conjunct2, THEN conjunct2, THEN conjunct2, THEN conjunct2, THEN conjunct2,
      THEN conjunct2, THEN conjunct2, THEN conjunct1, THEN mp, OF h8]
  note c9 = u [THEN conjunct2, THEN conjunct2, THEN conjunct2, THEN conjunct2, THEN conjunct2,
      THEN conjunct2, THEN conjunct2, THEN conjunct2, THEN mp, OF h9]
  from h1 h2 h3 h4 h6 h8 c1 c2 c3 c4 c6 c7 c8 c9
  show ?thesis by blast
qed

text \<open>
  C7 as stated fails. With a plain listener, an encrypted backend and no readable root
  file, start-up raises nothing: the process binds, enters the accept loop and accepts
  a connection. The fatal error comes when the goroutine of that connection reads the
  root file.
\<close>

theorem client_context_failure_after_accept:
  "status (Start (demo_proxy ''tcp'' ''tls'') no_files_world) = Running \<and>
   trace (Start (demo_proxy ''tcp'' ''tls'') no_files_world) =
     [Resolve ''127.0.0.1:9000'', Listen ''127.0.0.1:9000'' None] \<and>
   status (run (demo_proxy ''tcp'' ''tls'') no_files_world [DoAccept (Inr anon)]) = Running \<and>
   map conn_id (accepted (run (demo_proxy ''tcp'' ''tls'') no_files_world [DoAccept (Inr anon)])) = [0] \<and>
   trace (run (demo_proxy ''tcp'' ''tls'') no_files_world [DoAccept (Inr anon), DoServe 0 []]) =
     [Resolve ''127.0.0.1:9000'', Listen ''127.0.0.1:9000'' None, Accepted 0,
      ReadFile ''root.pem''] \<and>
   status (run (demo_proxy ''tcp'' ''tls'') no_files_world [DoAccept (Inr anon), DoServe 0 []]) =
     Fatal ''failed to load root certificate''"
  by (simp add: model_defs demo_defs no_files_world_def)

subsection \<open>Client certificates on the encrypted listener\<close>

lemma copy_step_silent: "silent s \<Longrightarrow> silent (copy_step False a s)"
  apply (cases a)
  subgoal for d rd wr
    apply (cases d; cases "pc_of d s")
    apply (auto simp: silent_def set_pc_def deliver_def pc_of_def Let_def
        conn_Read_def conn_Write_def split: prod.splits pc.splits)
    done
  done

lemma relay_silent: "silent s \<Longrightarrow> silent (relay False sched s)"
  by (induction sched arbitrary: s) (auto simp: copy_step_silent simp del: copy_step.simps)

lemma silent_start: "silent relay_start" "silent accepted_session"
  "silent (accepted_session\<lparr>listenConn_open := b\<rparr>)"
  by (simp_all add: silent_def relay_start_def accepted_session_def)

lemma pipe_silent: "\<not> handshake_ok w c \<Longrightarrow> silent (fst (snd (pipe w c evs sched)))"
  by (simp add: pipe_def Let_def relay_silent silent_start)

lemma serveTCP_silent: "\<not> handshake_ok w c \<Longrightarrow> silent (fst (snd (serveTCP rp w c sched)))"
  by (auto simp: serveTCP_def Let_def pipe_silent silent_start split: option.splits)

lemma serveTLS_silent: "\<not> handshake_ok w c \<Longrightarrow> silent (fst (snd (serveTLS rp w c sched)))"
  by (auto simp: serveTLS_def Let_def pipe_silent silent_start
      split: option.splits sum.splits prod.splits)

lemma serve_silent: "\<not> handshake_ok w c \<Longrightarrow> silent (fst (snd (serve rp w c sched)))"
  using serveTCP_silent [of w c rp sched] serveTLS_silent [of w c rp sched]
  by (auto simp: serve_def silent_start split: prod.splits)

lemma rejected_handshake:
  assumes "conn_tls c = Some cfg" and "ClientAuth cfg = RequireAndVerifyClientCert"
    and "peer_cert (conn_peer c) = None
         \<or> (\<exists>x. peer_cert (conn_peer c) = Some x \<and> \<not> verifies w (ClientCAs cfg) x)"
  shows "\<not> handshake_ok w c"
  using assms by (auto simp: handshake_ok_def client_auth_ok_def)

lemma proc_step_ln_config: "ln_config (proc_step rp w a p) = ln_config p"
  by (cases a) (auto simp: accept_step_def serve_step_def split: sum.splits prod.splits)

lemma proc_step_accepted_tls:
  assumes "\<forall>c \<in> set (accepted p). conn_tls c = ln_config p"
  shows "\<forall>c \<in> set (accepted (proc_step rp w a p)). conn_tls c = ln_config p"
  using assms
  by (cases a) (auto simp: accept_step_def serve_step_def split: sum.splits prod.splits)

lemma steps_accepted_tls:
  assumes "\<forall>c \<in> set (accepted p). conn_tls c = ln_config p"
  shows "\<forall>c \<in> set (accepted (steps rp w acts p)). conn_tls c = ln_config p"
  using assms
proof (induction acts arbitrary: p)
  case Nil
  then show ?case by simp
next
  case (Cons a acts)
  have "\<forall>c \<in> set (accepted (proc_step rp w a p)). conn_tls c = ln_config (proc_step rp w a p)"
    using proc_step_accepted_tls [OF Cons.prems] by (simp add: proc_step_ln_config)
  from Cons.IH [OF this] show ?case
    by (simp add: proc_step_ln_config)
qed

lemma startTLS_config:
  "status (startTLS rp w) = Running \<Longrightarrow>
     \<exists>pem cert. files w (rootCert rp) = Inr pem \<and>
       ln_config (startTLS rp w) =
         Some \<lparr>RootCAs = None, ClientCAs = Some (pem_certs w pem),
                ClientAuth = RequireAndVerifyClientCert, ServerName = [],
                Certificates = [cert]\<rparr>"
  by (auto simp: startTLS_def aborted_def listening_def Let_def AppendCertsFromPEM_def
      NewCertPool_def zero_Config_def
      split: sum.splits option.splits prod.splits if_splits)

lemma startTLS_accepted: "accepted (startTLS rp w) = []"
  by (auto simp: startTLS_def aborted_def listening_def Let_def
      split: sum.splits option.splits prod.splits if_splits)

lemma run_tls_accepted:
  assumes "listenProto rp = ''tls''" and "c \<in> set (accepted (run rp w acts))"
  shows "\<exists>pem cert. files w (rootCert rp) = Inr pem \<and>
       conn_tls c =
         Some \<lparr>RootCAs = None, ClientCAs = Some (pem_certs w pem),
                ClientAuth = RequireAndVerifyClientCert, ServerName = [],
                Certificates = [cert]\<rparr>"
proof -
  from assms(1) have s: "Start rp w = startTLS rp w"
    by (simp add: Start_def)
  show ?thesis
  proof (cases "status (startTLS rp w) = Running")
    case True
    have "\<forall>c \<in> set (accepted (steps rp w acts (startTLS rp w))).
            conn_tls c = ln_config (startTLS rp w)"
      by (rule steps_accepted_tls) (simp add: startTLS_accepted)
    with assms(2) s have "conn_tls c = ln_config (startTLS rp w)"
      by (simp add: run_def)
    with startTLS_config [OF True] show ?thesis by simp
  next
    case False
    then have "steps rp w acts (startTLS rp w) = startTLS rp w"
      by (rule steps_dead)
    with assms(2) s show ?thesis
      by (simp add: run_def startTLS_accepted)
  qed
qed

lemma serveTCP_dial_ok:
  assumes "Dial i a t tc \<in> set (fst (serveTCP rp w c sched))" and "net_dial w i a t tc = None"
  shows "fst (snd (serveTCP rp w c sched)) = relay (handshake_ok w c) sched relay_start"
  using assms
  by (auto simp: serveTCP_def Let_def pipe_def split: option.splits)

lemma serveTLS_dial_ok:
  assumes "Dial i a t tc \<in> set (fst (serveTLS rp w c sched))" and "net_dial w i a t tc = None"
  shows "fst (snd (serveTLS rp w c sched)) = relay (handshake_ok w c) sched relay_start"
  using assms
  by (auto simp: serveTLS_def Let_def pipe_def
      split: option.splits sum.splits prod.splits if_splits
      dest: LoadX509KeyPair_events)

lemma serve_dial_ok:
  assumes "Dial i a t tc \<in> set (fst (serve rp w c sched))" and "net_dial w i a t tc = None"
  shows "fst (snd (serve rp w c sched)) = relay (handshake_ok w c) sched relay_start"
proof -
  consider (tcp) "backendProto rp = ''tcp''"
    | (tls) "backendProto rp \<noteq> ''tcp''" "backendProto rp = ''tls''"
    | (none) "backendProto rp \<noteq> ''tcp''" "backendProto rp \<noteq> ''tls''"
    by blast
  then show ?thesis
  proof cases
    case tcp
    then have "fst (serve rp w c sched) = fst (serveTCP rp w c sched)"
      "fst (snd (serve rp w c sched)) = fst (snd (serveTCP rp w c sched))"
      by (simp_all add: serve_def split: prod.splits)
    with assms serveTCP_dial_ok [of i a t tc rp w c sched] show ?thesis by simp
  next
    case tls
    then have "fst (serve rp w c sched) = fst (serveTLS rp w c sched)"
      "fst (snd (serve rp w c sched)) = fst (snd (serveTLS rp w c sched))"
      by (simp_all add: serve_def split: prod.splits)
    with assms serveTLS_dial_ok [of i a t tc rp w c sched] show ?thesis by simp
  next
    case none
    with assms(1) show ?thesis by (simp add: serve_def)
  qed
qed

lemma serve_tcp_dials:
  "backendProto rp = ''tcp'' \<Longrightarrow>
     fst (serve rp w c sched) = [Dial (conn_id c) (backendAddr rp) (Some (30 * Second)) None]"
  by (auto simp: serve_def serveTCP_def Let_def pipe_def split: option.splits prod.splits)

lemma serve_step_sessions:
  assumes "status p = Running" and "i < length (accepted p)"
    and "i \<notin> set (map fst (sessions p))"
  shows "sessions (proc_step rp w (DoServe i sched) p) =
           sessions p @ [(i, fst (snd (serve rp w (accepted p ! i) sched)),
                          snd (snd (serve rp w (accepted p ! i) sched)))]"
  using assms by (simp add: serve_step_def split: prod.splits)

lemma accept_any_peer:
  "status p = Running \<Longrightarrow>
     accepted (proc_step rp w (DoAccept (Inr pr)) p) =
       accepted p @ [\<lparr>conn_id = length (accepted p), conn_peer = pr, conn_tls = ln_config p\<rparr>]"
  by (simp add: accept_step_def)

lemma first_read_rejected:
  "\<not> handshake_ok w c \<Longrightarrow>
     copy_step (handshake_ok w c) (Act F2B rd wr) relay_start =
       relay_start\<lparr>pc_f2b := ClosingBackend\<rparr>"
  by (simp add: relay_start_def pc_of_def conn_Read_def set_pc_def)


text \<open>
  C6 (as the code has it). Every connection accepted by the \<open>tls\<close> listener is wrapped
  with a configuration that requires and verifies a client certificate against the pool
  parsed from the root file. The handshake is not part of \<open>Accept\<close>: the accept loop
  accepts a connection whatever its peer presents, and the goroutine of an accepted
  connection runs \<open>serve\<close> on it with no check. \<open>serve\<close> dials the backend for it
  (always with a \<open>tcp\<close> backend, and with a \<open>tls\<close> backend once the client
  configuration has loaded), and when the dial it issued succeeds, the two copy loops
  are started on the connection, whatever its peer. A peer that presents no
  certificate, or one the pool does not verify, fails the handshake: the first \<open>Read\<close>
  of the front-to-back loop then fails and sends the loop to its exit path, and in
  every case no byte is written to the backend or to the peer.
\<close>

theorem listener_requires_client_certificate:
  "(listenProto rp = ''tls'' \<and> c \<in> set (accepted (run rp w acts)) \<longrightarrow>
      (\<exists>pem cert. files w (rootCert rp) = Inr pem \<and>
         conn_tls c =
           Some \<lparr>RootCAs = None, ClientCAs = Some (pem_certs w pem),
                  ClientAuth = RequireAndVerifyClientCert, ServerName = [],
                  Certificates = [cert]\<rparr>)) \<and>
   (conn_tls c = Some cfg \<and> ClientAuth cfg = RequireAndVerifyClientCert \<and>
    (peer_cert (conn_peer c) = None
     \<or> (\<exists>x. peer_cert (conn_peer c) = Some x \<and> \<not> verifies w (ClientCAs cfg) x)) \<longrightarrow>
      \<not> handshake_ok w c \<and>
      to_backend (fst (snd (serve rp w c sched))) = [] \<and>
      to_listen (fst (snd (serve rp w c sched))) = [] \<and>
      (\<forall>rd wr. copy_step (handshake_ok w c) (Act F2B rd wr) relay_start =
          relay_start\<lparr>pc_f2b := ClosingBackend\<rparr>)) \<and>
   (status p = Running \<longrightarrow>
      accepted (proc_step rp w (DoAccept (Inr pr)) p) =
        accepted p @ [\<lparr>conn_id = length (accepted p), conn_peer = pr, conn_tls = ln_config p\<rparr>]) \<and>
   (status p = Running \<and> i < length (accepted p) \<and> i \<notin> set (map fst (sessions p)) \<longrightarrow>
      sessions (proc_step rp w (DoServe i sched) p) =
        sessions p @ [(i, fst (snd (serve rp w (accepted p ! i) sched)),
                       snd (snd (serve rp w (accepted p ! i) sched)))]) \<and>
   (backendProto rp = ''tcp'' \<longrightarrow>
      fst (serve rp w c sched) = [Dial (conn_id c) (backendAddr rp) (Some (30 * Second)) None]) \<and>
   (backendProto rp = ''tls'' \<and> files w (rootCert rp) = Inr rootPEM \<and>
    pem_certs w rootPEM \<noteq> [] \<and> files w (clientCert rp) = Inr certPEM \<and>
    files w (clientKey rp) = Inr keyPEM \<and> X509KeyPair w certPEM keyPEM = Inr kp \<longrightarrow>
      fst (serve rp w c sched) =
        [ReadFile (rootCert rp), ReadFile (clientCert rp), ReadFile (clientKey rp),
         Dial (conn_id c) (backendAddr rp) None
           (Some \<lparr>RootCAs = Some (pem_certs w rootPEM), ClientCAs = None,
                  ClientAuth = NoClientCert, ServerName = ''testapp-server'',
                  Certificates = [kp]\<rparr>)]) \<and>
   (Dial j a t tc \<in> set (fst (serve rp w c sched)) \<and> net_dial w j a t tc = None \<longrightarrow>
      fst (snd (serve rp w c sched)) = relay (handshake_ok w c) sched relay_start)"
proof -
  have 1: "listenProto rp = ''tls'' \<and> c \<in> set (accepted (run rp w acts)) \<longrightarrow>
      (\<exists>pem cert. files w (rootCert rp) = Inr pem \<and>
         conn_tls c =
           Some \<lparr>RootCAs = None, ClientCAs = Some (pem_certs w pem),
                  ClientAuth = RequireAndVerifyClientCert, ServerName = [],
                  Certificates = [cert]\<rparr>)"
    using run_tls_accepted by blast
  have 2: "conn_tls c = Some cfg \<and> ClientAuth cfg = RequireAndVerifyClientCert \<and>
    (peer_cert (conn_peer c) = None
     \<or> (\<exists>x. peer_cert (conn_peer c) = Some x \<and> \<not> verifies w (ClientCAs cfg) x)) \<longrightarrow>
      \<not> handshake_ok w c \<and>
      to_backend (fst (snd (serve rp w c sched))) = [] \<and>
      to_listen (fst (snd (serve rp w c sched))) = [] \<and>
      (\<forall>rd wr. copy_step (handshake_ok w c) (Act F2B rd wr) relay_start =
          relay_start\<lparr>pc_f2b := ClosingBackend\<rparr>)"
  proof
    assume a: "conn_tls c = Some cfg \<and> ClientAuth cfg = RequireAndVerifyClientCert \<and>
      (peer_cert (conn_peer c) = None
       \<or> (\<exists>x. peer_cert (conn_peer c) = Some x \<and> \<not> verifies w (ClientCAs cfg) x))"
    then have h: "\<not> handshake_ok w c"
      using rejected_handshake by blast
    from serve_silent [OF h, of rp sched]
    have s: "to_backend (fst (snd (serve rp w c sched))) = []"
      "to_listen (fst (snd (serve rp w c sched))) = []"
      by (simp_all add: silent_def)
    from h s first_read_rejected [OF h]
    show "\<not> handshake_ok w c \<and>
      to_backend (fst (snd (serve rp w c sched))) = [] \<and>
      to_listen (fst (snd (serve rp w c sched))) = [] \<and>
      (\<forall>rd wr. copy_step (handshake_ok w c) (Act F2B rd wr) relay_start =
          relay_start\<lparr>pc_f2b := ClosingBackend\<rparr>)"
      by blast
  qed
  have 3: "status p = Running \<longrightarrow>
      accepted (proc_step rp w (DoAccept (Inr pr)) p) =
        accepted p @ [\<lparr>conn_id = length (accepted p), conn_peer = pr, conn_tls = ln_config p\<rparr>]"
    using accept_any_peer by blast
  have 4: "status p = Running \<and> i < length (accepted p) \<and> i \<notin> set (map fst (sessions p)) \<longrightarrow>
      sessions (proc_step rp w (DoServe i sched) p) =
        sessions p @ [(i, fst (snd (serve rp w (accepted p ! i) sched)),
                       snd (snd (serve rp w (accepted p ! i) sched)))]"
    using serve_step_sessions by blast
  have 5: "backendProto rp = ''tcp'' \<longrightarrow>
      fst (serve rp w c sched) = [Dial (conn_id c) (backendAddr rp) (Some (30 * Second)) None]"
    using serve_tcp_dials by blast
  have 6: "Dial j a t tc \<in> set (fst (serve rp w c sched)) \<and> net_dial w j a t tc = None \<longrightarrow>
      fst (snd (serve rp w c sched)) = relay (handshake_ok w c) sched relay_start"
    using serve_dial_ok by blast
  have 7: "backendProto rp = ''tls'' \<and> files w (rootCert rp) = Inr rootPEM \<and>
    pem_certs w rootPEM \<noteq> [] \<and> files w (clientCert rp) = Inr certPEM \<and>
    files w (clientKey rp) = Inr keyPEM \<and> X509KeyPair w certPEM keyPEM = Inr kp \<longrightarrow>
      fst (serve rp w c sched) =
        [ReadFile (rootCert rp), ReadFile (clientCert rp), ReadFile (clientKey rp),
         Dial (conn_id c) (backendAddr rp) None
           (Some \<lparr>RootCAs = Some (pem_certs w rootPEM), ClientCAs = None,
                  ClientAuth = NoClientCert, ServerName = ''testapp-server'',
                  Certificates = [kp]\<rparr>)]"
    by (auto simp: serve_def serveTLS_def Let_def pipe_def AppendCertsFromPEM_def
        NewCertPool_def LoadX509KeyPair_def zero_Config_def split: option.splits)
  from 1 2 3 4 5 7 6 show ?thesis by (intro conjI)
qed


theorem listener_requires_client_certificate_witness:
  "tls_conn anon \<in> set (accepted (run (demo_proxy ''tls'' ''tcp'') demo_world [DoAccept (Inr anon)])) \<and>
   (\<exists>pem cert. files demo_world (rootCert (demo_proxy ''tls'' ''tcp'')) = Inr pem \<and>
      conn_tls (tls_conn anon) =
        Some \<lparr>RootCAs = None, ClientCAs = Some (pem_certs demo_world pem),
               ClientAuth = RequireAndVerifyClientCert, ServerName = [],
               Certificates = [cert]\<rparr>) \<and>
   peer_cert (conn_peer (tls_conn anon)) = None \<and>
   \<not> handshake_ok demo_world (tls_conn anon) \<and>
   to_backend (fst (snd (serve (demo_proxy ''tls'' ''tcp'') demo_world (tls_conn anon) ping_sched))) = [] \<and>
   to_listen (fst (snd (serve (demo_proxy ''tls'' ''tcp'') demo_world (tls_conn anon) ping_sched))) = [] \<and>
   peer_cert (conn_peer (tls_conn stranger)) = Some ''self signed'' \<and>
   \<not> verifies demo_world (ClientCAs demo_server_config) ''self signed'' \<and>
   \<not> handshake_ok demo_world (tls_conn stranger) \<and>
   to_backend (fst (snd (serve (demo_proxy ''tls'' ''tcp'') demo_world (tls_conn stranger) ping_sched))) = [] \<and>
   to_listen (fst (snd (serve (demo_proxy ''tls'' ''tcp'') demo_world (tls_conn stranger) ping_sched))) = [] \<and>
   status (Start (demo_proxy ''tls'' ''tcp'') demo_world) = Running \<and>
   accepted (proc_step (demo_proxy ''tls'' ''tcp'') demo_world (DoAccept (Inr anon))
       (Start (demo_proxy ''tls'' ''tcp'') demo_world)) =
     accepted (Start (demo_proxy ''tls'' ''tcp'') demo_world)
       @ [\<lparr>conn_id = length (accepted (Start (demo_proxy ''tls'' ''tcp'') demo_world)),
           conn_peer = anon,
           conn_tls = ln_config (Start (demo_proxy ''tls'' ''tcp'') demo_world)\<rparr>] \<and>
   sessions (proc_step (demo_proxy ''tls'' ''tcp'') demo_world (DoServe 0 ping_sched)
       (run (demo_proxy ''tls'' ''tcp'') demo_world [DoAccept (Inr anon)])) =
     sessions (run (demo_proxy ''tls'' ''tcp'') demo_world [DoAccept (Inr anon)])
       @ [(0, fst (snd (serve (demo_proxy ''tls'' ''tcp'') demo_world
                  (accepted (run (demo_proxy ''tls'' ''tcp'') demo_world [DoAccept (Inr anon)]) ! 0)
                  ping_sched)),
           snd (snd (serve (demo_proxy ''tls'' ''tcp'') demo_world
                  (accepted (run (demo_proxy ''tls'' ''tcp'') demo_world [DoAccept (Inr anon)]) ! 0)
                  ping_sched)))] \<and>
   fst (serve (demo_proxy ''tls'' ''tcp'') demo_world (tls_conn anon) ping_sched) =
     [Dial (conn_id (tls_conn anon)) (backendAddr (demo_proxy ''tls'' ''tcp''))
        (Some (30 * Second)) None] \<and>
   fst (serve (demo_proxy ''tls'' ''tls'') demo_world (tls_conn anon) ping_sched) =
     [ReadFile (rootCert (demo_proxy ''tls'' ''tls'')),
      ReadFile (clientCert (demo_proxy ''tls'' ''tls'')),
      ReadFile (clientKey (demo_proxy ''tls'' ''tls'')),
      Dial (conn_id (tls_conn anon)) (backendAddr (demo_proxy ''tls'' ''tls'')) None
        (Some \<lparr>RootCAs = Some (pem_certs demo_world ''PEM root.pem''), ClientCAs = None,
               ClientAuth = NoClientCert, ServerName = ''testapp-server'',
               Certificates = [''PEM client.pem with PEM client.key'']\<rparr>)] \<and>
   fst (snd (serve (demo_proxy ''tls'' ''tcp'') demo_world (tls_conn anon) ping_sched)) =
     relay (handshake_ok demo_world (tls_conn anon)) ping_sched relay_start"
proof -
  let ?P = "demo_proxy ''tls'' ''tcp''"
  let ?Q = "demo_proxy ''tls'' ''tls''"
  let ?p = "run ?P demo_world [DoAccept (Inr anon)]"
  have h1: "listenProto ?P = ''tls'' \<and>
            tls_conn anon \<in> set (accepted (run ?P demo_world [DoAccept (Inr anon)]))"
    by (simp add: model_defs demo_defs tls_conn_def demo_server_config_def)
  have h2: "conn_tls (tls_conn anon) = Some demo_server_config \<and>
            ClientAuth demo_server_config = RequireAndVerifyClientCert \<and>
            peer_cert (conn_peer (tls_conn anon)) = None"
    by (simp add: anon_def tls_conn_def demo_server_config_def)
  have h3: "conn_tls (tls_conn stranger) = Some demo_server_config \<and>
            ClientAuth demo_server_config = RequireAndVerifyClientCert \<and>
            peer_cert (conn_peer (tls_conn stranger)) = Some ''self signed'' \<and>
            \<not> verifies demo_world (ClientCAs demo_server_config) ''self signed''"
    by (simp add: stranger_def tls_conn_def demo_server_config_def demo_world_def)
  have h4: "status (Start ?P demo_world) = Running"
    by (simp add: model_defs demo_defs)
  have h5: "status ?p = Running \<and> 0 < length (accepted ?p) \<and> 0 \<notin> set (map fst (sessions ?p))"
    by (simp add: model_defs demo_defs)
  have h6: "backendProto ?P = ''tcp'' \<and>
            net_dial demo_world (conn_id (tls_conn anon)) (backendAddr ?P) (Some (30 * Second)) None
              = None"
    by (simp add: demo_defs)
  have h7: "backendProto ?Q = ''tls'' \<and> files demo_world (rootCert ?Q) = Inr ''PEM root.pem'' \<and>
            pem_certs demo_world ''PEM root.pem'' \<noteq> [] \<and>
            files demo_world (clientCert ?Q) = Inr ''PEM client.pem'' \<and>
            files demo_world (clientKey ?Q) = Inr ''PEM client.key'' \<and>
            X509KeyPair demo_world ''PEM client.pem'' ''PEM client.key''
              = Inr ''PEM client.pem with PEM client.key''"
    by (simp add: demo_defs)
  note a = listener_requires_client_certificate [where rp = ?P and w = demo_world
      and acts = "[DoAccept (Inr anon)]" and c = "tls_conn anon" and cfg = demo_server_config
      and sched = ping_sched and p = "Start ?P demo_world" and pr = anon
      and j = "conn_id (tls_conn anon)" and a = "backendAddr ?P" and t = "Some (30 * Second)"
      and tc = None]
  note b = listener_requires_client_certificate [where rp = ?P and w = demo_world
      and c = "tls_conn stranger" and cfg = demo_server_config and sched = ping_sched
      and p = ?p and i = 0]
  note c = listener_requires_client_certificate [where rp = ?Q and w = demo_world
      and c = "tls_conn anon" and sched = ping_sched and rootPEM = "''PEM root.pem''"
      and certPEM = "''PEM client.pem''" and keyPEM = "''PEM client.key''"
      and kp = "''PEM client.pem with PEM client.key''"]
  note c1 = a [THEN conjunct1, THEN mp, OF h1]
  have h2': "conn_tls (tls_conn anon) = Some demo_server_config \<and>
             ClientAuth demo_server_config = RequireAndVerifyClientCert \<and>
             (peer_cert (conn_peer (tls_conn anon)) = None \<or>
              (\<exists>x. peer_cert (conn_peer (tls_conn anon)) = Some x \<and>
                   \<not> verifies demo_world (ClientCAs demo_server_config) x))"
    using h2 by blast
  have h3': "conn_tls (tls_conn stranger) = Some demo_server_config \<and>
             ClientAuth demo_server_config = RequireAndVerifyClientCert \<and>
             (peer_cert (conn_peer (tls_conn stranger)) = None \<or>
              (\<exists>x. peer_cert (conn_peer (tls_conn stranger)) = Some x \<and>
                   \<not> verifies demo_world (ClientCAs demo_server_config) x))"
    using h3 by blast
  note c2 = a [THEN conjunct2, THEN conjunct1, THEN mp, OF h2']
  note c2' = b [THEN conjunct2, THEN conjunct1, THEN mp, OF h3']
  note c3 = a [THEN conjunct2, THEN conjunct2, THEN conjunct1, THEN mp, OF h4]
  note c4 = b [THEN conjunct2, THEN conjunct2, THEN conjunct2, THEN conjunct1, THEN mp, OF h5]
  note c5 = a [THEN conjunct2, THEN conjunct2, THEN conjunct2, THEN conjunct2, THEN conjunct1,
      THEN mp, OF conjunct1 [OF h6]]
  note c7 = c [THEN conjunct2, THEN conjunct2, THEN conjunct2, THEN conjunct2, THEN conjunct2,
      THEN conjunct1, THEN mp, OF h7]
  have d: "Dial (conn_id (tls_conn anon)) (backendAddr ?P) (Some (30 * Second)) None
             \<in> set (fst (serve ?P demo_world (tls_conn anon) ping_sched))"
    using c5 by simp
  note c6 = a [THEN conjunct2, THEN conjunct2, THEN conjunct2, THEN conjunct2, THEN conjunct2,
      THEN conjunct2, THEN mp, OF conjI [OF d conjunct2 [OF h6]]]
  from h1 h2 h3 h4 c1 c2 c2' c3 c4 c5 c7 c6
  show ?thesis by blast
qed

text \<open>
  C6 as stated fails in its last part. A peer that presents no certificate is accepted
  by the \<open>tls\<close> listener and handed to \<open>serve\<close>, although its handshake cannot succeed:
  the backend is dialled for it and both copy loops are started on its connection.
\<close>

theorem unauthenticated_peer_reaches_relay:
  "accepted (run (demo_proxy ''tls'' ''tcp'') demo_world [DoAccept (Inr anon)]) =
     [\<lparr>conn_id = 0, conn_peer = anon, conn_tls = Some demo_server_config\<rparr>] \<and>
   \<not> handshake_ok demo_world
       \<lparr>conn_id = 0, conn_peer = anon, conn_tls = Some demo_server_config\<rparr> \<and>
   peer_cert anon = None \<and>
   status (run (demo_proxy ''tls'' ''tcp'') demo_world [DoAccept (Inr anon), DoServe 0 []]) = Running \<and>
   sessions (run (demo_proxy ''tls'' ''tcp'') demo_world [DoAccept (Inr anon), DoServe 0 []]) =
     [(0, relay_start, Running)] \<and>
   trace (run (demo_proxy ''tls'' ''tcp'') demo_world [DoAccept (Inr anon), DoServe 0 []]) =
     [ReadFile ''root.pem'', ReadFile ''server.pem'', ReadFile ''server.key'',
      Listen ''127.0.0.1:9000'' (Some demo_server_config), Accepted 0,
      Dial 0 ''127.0.0.1:9001'' (Some (30 * Second)) None]"
  by (simp add: model_defs demo_defs demo_server_config_def)

end
